theory Spec2Isabelle
  imports Complex_Main "HOL-Library.Sublist"
begin

section \<open>Shared helpers\<close>

text \<open>
  Decimal rendering of a non-negative integer, as JavaScript's template literals and
  \<^verbatim>\<open>Number.prototype.toString\<close> produce it for the integers that occur here (ids,
  section numbers, minutes).
\<close>

fun string_of_nat :: "nat \<Rightarrow> string" where
  "string_of_nat n =
     (if n < 10 then [char_of (48 + n)]
      else string_of_nat (n div 10) @ [char_of (48 + n mod 10)])"

declare string_of_nat.simps [simp del]

section \<open>Auth store (stores/authStore.ts) and the response interceptor (services/api.ts)\<close>

record User =
  user_id :: int
  email :: string
  user_name :: string
  picture :: "string option"
  created_at :: string

record AuthState =
  user :: "User option"
  token :: "string option"
  isAuthenticated :: bool
  isLoading :: bool
  error :: "string option"

text \<open>The part of the state that the \<^verbatim>\<open>persist\<close> middleware writes to storage.\<close>

record PersistedAuth =
  persisted_user :: "User option"
  persisted_token :: "string option"
  persisted_isAuthenticated :: bool

definition partialize :: "AuthState \<Rightarrow> PersistedAuth" where
  "partialize state =
     \<lparr>persisted_user = user state,
      persisted_token = token state,
      persisted_isAuthenticated = isAuthenticated state\<rparr>"

definition login :: "User \<Rightarrow> string \<Rightarrow> AuthState \<Rightarrow> AuthState" where
  "login u t state = state\<lparr>user := Some u, token := Some t, isAuthenticated := True, error := None\<rparr>"

definition logout :: "AuthState \<Rightarrow> AuthState" where
  "logout state = state\<lparr>user := None, token := None, isAuthenticated := False, error := None\<rparr>"

definition handleTokenExpiration :: "AuthState \<Rightarrow> AuthState" where
  "handleTokenExpiration state =
     state\<lparr>user := None, token := None, isAuthenticated := False,
           error := Some ''Your session has expired. Please sign in again.''\<rparr>"

text \<open>
  An axios call settles either with a response or with an error; the error carries the
  response when the server answered (\<^verbatim>\<open>error.response?.status\<close>). No call of the
  repository overrides axios' status validation, which resolves the statuses from 200 up
  to 299 and rejects every other one.
\<close>

datatype axios_outcome = Resolved nat | Rejected "nat option"

definition validateStatus :: "nat \<Rightarrow> bool" where
  "validateStatus status = (200 \<le> status \<and> status < 300)"

definition settle :: "nat \<Rightarrow> axios_outcome" where
  "settle status = (if validateStatus status then Resolved status else Rejected (Some status))"

text \<open>
  The response interceptor: the success handler returns the response untouched, the error
  handler calls \<^verbatim>\<open>handleTokenExpiration\<close> on the store when the status is 401 and
  rejects again in every case.
\<close>

fun response_interceptor :: "axios_outcome \<Rightarrow> AuthState \<Rightarrow> AuthState" where
  "response_interceptor (Resolved status) state = state"
| "response_interceptor (Rejected status) state =
     (if status = Some 401 then handleTokenExpiration state else state)"

definition api_response :: "nat \<Rightarrow> AuthState \<Rightarrow> AuthState" where
  "api_response status state = response_interceptor (settle status) state"

section \<open>File upload (the FileUpload component, src/unnamed/part_001)\<close>

record File =
  file_name :: string
  file_type :: string
  file_size :: nat

datatype upload_effect = SetDragActive bool | OnFileSelect File

text \<open>
  A \<^verbatim>\<open>FileList\<close> may be absent (\<^verbatim>\<open>null\<close>); indexing position 0 of an empty list
  gives \<^verbatim>\<open>undefined\<close>, which the guards treat like an absent list.
\<close>

fun first_file :: "File list option \<Rightarrow> File option" where
  "first_file None = None"
| "first_file (Some []) = None"
| "first_file (Some (f # fs)) = Some f"

definition handleDrop :: "File list option \<Rightarrow> upload_effect list" where
  "handleDrop files =
     SetDragActive False #
     (case first_file files of
        None \<Rightarrow> []
      | Some f \<Rightarrow> (if file_type f = ''application/pdf'' then [OnFileSelect f] else []))"

definition handleFileSelect_input :: "File list option \<Rightarrow> upload_effect list" where
  "handleFileSelect_input files =
     (case first_file files of None \<Rightarrow> [] | Some f \<Rightarrow> [OnFileSelect f])"

section \<open>Quota (the pricing store)\<close>

record UserQuota =
  plan_type :: string
  pdfs_used :: int
  pdf_limit :: "int option"
  can_process :: bool
  message :: string

text \<open>The guard \<^verbatim>\<open>userQuota && userQuota.plan_type === 'free'\<close>.\<close>

definition is_free :: "UserQuota option \<Rightarrow> bool" where
  "is_free userQuota = (case userQuota of None \<Rightarrow> False | Some q \<Rightarrow> plan_type q = ''free'')"

section \<open>Study pack download (components/StudyPack.tsx)\<close>

type_synonym blob = string

datatype download_effect =
    Alert string
  | SetDownloading bool
  | ApiGet string
  | SaveBlob blob

text \<open>\<^verbatim>\<open>!historyId\<close> holds for an absent id and for the number 0.\<close>

definition no_history_id :: "nat option \<Rightarrow> bool" where
  "no_history_id historyId = (case historyId of None \<Rightarrow> True | Some n \<Rightarrow> n = 0)"

definition download_url :: "nat \<Rightarrow> string" where
  "download_url historyId = ''/download-pdf/'' @ string_of_nat historyId"

text \<open>
  \<^verbatim>\<open>handleDownload\<close>; the server's answer to the request is a parameter (\<open>None\<close>: the
  request failed). The name given to the saved file is not part of the model.
\<close>

definition handleDownload :: "nat option \<Rightarrow> (string \<Rightarrow> blob option) \<Rightarrow> download_effect list" where
  "handleDownload historyId server =
     (case historyId of
        None \<Rightarrow> [Alert ''Download not available for this session'']
      | Some n \<Rightarrow>
          if n = 0 then [Alert ''Download not available for this session'']
          else
            [SetDownloading True, ApiGet (download_url n)] @
            (case server (download_url n) of
               Some b \<Rightarrow> [SaveBlob b]
             | None \<Rightarrow> [Alert ''Failed to download PDF'']) @
            [SetDownloading False])"

text \<open>
  The history list (components/History.tsx) is the other place that downloads a pack; its
  \<^verbatim>\<open>handleDownload\<close> is called with the id of the listed item.
\<close>

definition History_handleDownload :: "nat \<Rightarrow> (string \<Rightarrow> blob option) \<Rightarrow> download_effect list" where
  "History_handleDownload historyId server =
     ApiGet (download_url historyId) #
     (case server (download_url historyId) of
        Some b \<Rightarrow> [SaveBlob b]
      | None \<Rightarrow> [Alert ''Failed to download PDF''])"

text \<open>The \<^verbatim>\<open>disabled\<close> attribute of the download button.\<close>

definition download_disabled :: "bool \<Rightarrow> nat option \<Rightarrow> UserQuota option \<Rightarrow> bool" where
  "download_disabled downloading historyId userQuota =
     (downloading \<or> no_history_id historyId \<or> is_free userQuota)"

section \<open>Study pack view (components/StudyPack.tsx)\<close>

text \<open>
  The response of \<^verbatim>\<open>/process-pdf\<close> as the component reads it. The component takes
  it as \<^verbatim>\<open>any\<close> and guards every list it reads, so the lists are optional here.
  Scores and times are JSON numbers; they are modelled as rationals.
\<close>

record OutlineItem =
  outline_title :: string
  outline_page_number :: int
  outline_reading_time_minutes :: rat

record ContentChunk =
  chunk_text :: string
  page_number :: int
  word_count :: int
  reading_time_minutes :: rat
  importance_score :: rat
  headings :: "string list option"
  chunk_keywords :: "string list option"

record KeyPoint =
  point :: string
  category :: string

record QuizQuestion =
  question :: string
  options :: "string list"
  correct_answer :: string
  explanation :: string

record ProcessedData =
  outline :: "OutlineItem list option"
  condensed_content :: "ContentChunk list option"
  key_points :: "KeyPoint list option"
  quiz :: "QuizQuestion list option"
  key_points_warning :: "string option"
  processing_notes :: "string list option"

record Section =
  title :: string
  importance :: string
  content :: string
  keyPoints :: "string list"
  readingTime :: rat

text \<open>\<^verbatim>\<open>chunk.headings?.[0]\<close>: absent when there is no list or the list is empty.\<close>

fun first_heading :: "string list option \<Rightarrow> string option" where
  "first_heading None = None"
| "first_heading (Some []) = None"
| "first_heading (Some (h # hs)) = Some h"

text \<open>
  \<^verbatim>\<open>a || b\<close> on an optional string: \<open>b\<close> when \<open>a\<close> is absent or the empty string.
\<close>

fun string_or :: "string option \<Rightarrow> string \<Rightarrow> string" where
  "string_or None b = b"
| "string_or (Some a) b = (if a = [] then b else a)"

fun list_or_empty :: "'a list option \<Rightarrow> 'a list" where
  "list_or_empty None = []"
| "list_or_empty (Some xs) = xs"

definition importance_of :: "rat \<Rightarrow> string" where
  "importance_of score =
     (if score > 7 / 10 then ''High'' else if score > 4 / 10 then ''Medium'' else ''Low'')"

definition section_of :: "nat \<Rightarrow> ContentChunk \<Rightarrow> Section" where
  "section_of index chunk =
     \<lparr>title = string_or (first_heading (headings chunk)) (''Section '' @ string_of_nat (index + 1)),
      importance = importance_of (importance_score chunk),
      content = chunk_text chunk,
      keyPoints = list_or_empty (chunk_keywords chunk),
      readingTime = reading_time_minutes chunk\<rparr>"

fun map_index :: "(nat \<Rightarrow> 'a \<Rightarrow> 'b) \<Rightarrow> nat \<Rightarrow> 'a list \<Rightarrow> 'b list" where
  "map_index f i [] = []"
| "map_index f i (x # xs) = f i x # map_index f (Suc i) xs"

definition sections :: "ProcessedData option \<Rightarrow> Section list" where
  "sections processedData =
     (case processedData of
        None \<Rightarrow> []
      | Some d \<Rightarrow>
          (case condensed_content d of
             None \<Rightarrow> []
           | Some chunks \<Rightarrow> map_index section_of 0 chunks))"

definition outline_titles :: "ProcessedData option \<Rightarrow> string list" where
  "outline_titles processedData =
     (case processedData of
        None \<Rightarrow> []
      | Some d \<Rightarrow> map outline_title (list_or_empty (outline d)))"

definition keyTakeaways :: "ProcessedData option \<Rightarrow> KeyPoint list" where
  "keyTakeaways processedData =
     (case processedData of None \<Rightarrow> [] | Some d \<Rightarrow> list_or_empty (key_points d))"

definition quiz_of :: "ProcessedData option \<Rightarrow> QuizQuestion list" where
  "quiz_of processedData =
     (case processedData of None \<Rightarrow> [] | Some d \<Rightarrow> list_or_empty (quiz d))"

definition processingNotes :: "ProcessedData option \<Rightarrow> string list" where
  "processingNotes processedData =
     (case processedData of None \<Rightarrow> [] | Some d \<Rightarrow> list_or_empty (processing_notes d))"

text \<open>
  What the component returns, block by block in the order of the JSX. A sections block
  carries the section cards in the order in which \<^verbatim>\<open>sections.map\<close> emits them.
\<close>

datatype view_block =
    HeaderBlock bool
  | StudyOutline "string list"
  | MustReadSections "Section list"
  | KeyTakeawaysBlock "KeyPoint list"
  | KeyTakeawaysUpgradeNotice
  | ProcessingNotesBlock "string list"
  | QuizBlock "QuizQuestion list"
  | QuizUpgradeNotice
  | StartOverButton

definition not_free :: "UserQuota option \<Rightarrow> bool" where
  "not_free userQuota = (case userQuota of None \<Rightarrow> False | Some q \<Rightarrow> plan_type q \<noteq> ''free'')"

definition StudyPack ::
  "UserQuota option \<Rightarrow> bool \<Rightarrow> nat option \<Rightarrow> ProcessedData option \<Rightarrow> view_block list" where
  "StudyPack userQuota downloading historyId processedData =
     [HeaderBlock (download_disabled downloading historyId userQuota),
      StudyOutline (outline_titles processedData),
      MustReadSections (sections processedData)] @
     (if not_free userQuota \<and> length (keyTakeaways processedData) > 0
      then [KeyTakeawaysBlock (keyTakeaways processedData)] else []) @
     (if is_free userQuota then [KeyTakeawaysUpgradeNotice] else []) @
     (if length (processingNotes processedData) > 0
      then [ProcessingNotesBlock (processingNotes processedData)] else []) @
     (if not_free userQuota \<and> length (quiz_of processedData) > 0
      then [QuizBlock (quiz_of processedData)] else []) @
     (if is_free userQuota then [QuizUpgradeNotice] else []) @
     [StartOverButton]"

section \<open>Pricing store: fetching the quota\<close>

record ApiError =
  err_status :: "nat option"
  err_detail :: "string option"
  err_message :: "string option"

record PricingStore =
  userQuota :: "UserQuota option"
  pricing_isLoading :: bool
  pricing_error :: "string option"

text \<open>
  \<^verbatim>\<open>fetchUserQuota\<close>: the reply of \<^verbatim>\<open>GET /pricing/user-quota\<close> is a parameter. On
  success the body is stored and returned; on failure the error is recorded and thrown
  again (\<open>Inl\<close>).
\<close>

definition fetchUserQuota ::
  "ApiError + UserQuota option \<Rightarrow> PricingStore \<Rightarrow> (ApiError + UserQuota option) \<times> PricingStore" where
  "fetchUserQuota reply store =
     (case reply of
        Inr data \<Rightarrow>
          (Inr data, store\<lparr>userQuota := data, pricing_isLoading := False, pricing_error := None\<rparr>)
      | Inl e \<Rightarrow>
          (Inl e, store\<lparr>pricing_isLoading := False,
                         pricing_error := Some ''Failed to load user quota''\<rparr>))"

text \<open>
  The guard shared by \<^verbatim>\<open>handleFileSelect\<close> and \<^verbatim>\<open>ProcessingLoader\<close>: a quota
  object of the free plan with a limit that is used up.
\<close>

definition quota_exhausted :: "UserQuota option \<Rightarrow> bool" where
  "quota_exhausted quota =
     (case quota of
        None \<Rightarrow> False
      | Some q \<Rightarrow>
          plan_type q = ''free'' \<and>
          (case pdf_limit q of None \<Rightarrow> False | Some limit \<Rightarrow> pdfs_used q \<ge> limit))"

section \<open>Application state (the App component, src/unnamed/part_000)\<close>

datatype AppState =
    Upload | TimeSelect | Processing | Results | History | HistoryItem
  | AuthRequired | Pricing | Subscription

record App =
  currentState :: AppState
  selectedFile :: "File option"
  selectedTime :: "nat option"
  processedData :: "ProcessedData option"
  currentHistoryId :: "nat option"
  showSubscribeModal :: bool
  quotaError :: "string option"

text \<open>
  \<^verbatim>\<open>handleFileSelect\<close>: fetches the quota and decides on the fetched value. A failed
  fetch lands in the \<^verbatim>\<open>catch\<close> branch.
\<close>

definition handleFileSelect ::
  "bool \<Rightarrow> ApiError + UserQuota option \<Rightarrow> File \<Rightarrow> App \<times> PricingStore \<Rightarrow> App \<times> PricingStore" where
  "handleFileSelect authenticated reply file st =
     (case fetchUserQuota reply (snd st) of
        (Inl e, store) \<Rightarrow>
          ((fst st)\<lparr>quotaError := Some ''An error occurred. Please try again.'',
                     showSubscribeModal := True\<rparr>, store)
      | (Inr quota, store) \<Rightarrow>
          if quota_exhausted quota then
            ((fst st)\<lparr>quotaError :=
                         Some ''You have used all 3 free PDFs. Please purchase a plan to continue.'',
                       showSubscribeModal := True\<rparr>, store)
          else if \<not> authenticated then
            ((fst st)\<lparr>selectedFile := Some file, currentState := AuthRequired\<rparr>, store)
          else
            ((fst st)\<lparr>selectedFile := Some file, currentState := TimeSelect\<rparr>, store))"


definition handleAuthSuccess :: "App \<Rightarrow> App" where
  "handleAuthSuccess app =
     (case selectedFile app of
        Some f \<Rightarrow> app\<lparr>currentState := TimeSelect\<rparr>
      | None \<Rightarrow> app\<lparr>currentState := Upload\<rparr>)"

text \<open>
  The props of \<^verbatim>\<open>ProcessingLoader\<close>: the file, the time, and whether the parent passes
  the \<^verbatim>\<open>setIsProcessing\<close> callback that the component's interface requires and that a
  JavaScript caller may leave out. (\<^verbatim>\<open>onComplete\<close> appears as an effect of the loader.)
\<close>

record LoaderProps =
  props_file :: File
  props_time :: nat
  props_setIsProcessing :: bool

text \<open>
  The props with which \<^verbatim>\<open>App\<close> mounts \<^verbatim>\<open>ProcessingLoader\<close>, if it does: the state is
  \<^verbatim>\<open>processing\<close>, file and time are truthy, and the subscribe modal does not replace
  the main content. \<^verbatim>\<open>App\<close> passes \<^verbatim>\<open>onComplete\<close>, \<^verbatim>\<open>selectedFile\<close> and
  \<^verbatim>\<open>selectedTime\<close> and no \<^verbatim>\<open>setIsProcessing\<close>.
\<close>

definition mounted_loader :: "App \<Rightarrow> LoaderProps option" where
  "mounted_loader app =
     (if showSubscribeModal app then None
      else if currentState app = Processing then
        (case (selectedFile app, selectedTime app) of
           (Some f, Some t) \<Rightarrow>
             (if t = 0 then None
              else Some \<lparr>props_file = f, props_time = t, props_setIsProcessing = False\<rparr>)
         | _ \<Rightarrow> None)
      else None)"

section \<open>Time selector (components/TimeSelector.tsx)\<close>




section \<open>Upload request (services/api.ts) and the ProcessingLoader component (src/unnamed/part_002)\<close>

datatype form_value = FileField File | TextField string

record http_request =
  req_method :: string
  req_url :: string
  req_content_type :: string
  req_form :: "(string \<times> form_value) list"

definition pdfAPI_processPDF :: "File \<Rightarrow> nat \<Rightarrow> http_request" where
  "pdfAPI_processPDF file timeLimit =
     \<lparr>req_method = ''POST'',
      req_url = ''/process-pdf'',
      req_content_type = ''multipart/form-data'',
      req_form = [(''file'', FileField file),
                  (''time_limit'', TextField (string_of_nat timeLimit))]\<rparr>"

datatype loader_effect =
    SetIsProcessing bool
  | SetError "string option"
  | FetchUserQuota
  | SetShowSubscribeModal bool
  | ApiPost http_request
  | SetProgress nat
  | SetCurrentStep nat
  | OnComplete ProcessedData
  | Throws string

definition on_upload_error :: "ApiError \<Rightarrow> loader_effect list" where
  "on_upload_error err =
     (if err_status err = Some 403 then
        [SetShowSubscribeModal True,
         SetError (Some (string_or (err_detail err)
           ''You have used all your free PDFs. Please upgrade to continue.'')),
         SetIsProcessing False]
      else
        [SetError (Some (string_or (err_detail err)
           (string_or (err_message err) ''Failed to process PDF''))),
         SetIsProcessing False])"

text \<open>
  \<^verbatim>\<open>fetchUserQuota\<close> marks the store as loading before it awaits the server.
\<close>

definition fetch_started :: "PricingStore \<Rightarrow> PricingStore" where
  "fetch_started store = store\<lparr>pricing_isLoading := True, pricing_error := None\<rparr>"

text \<open>
  The loader's effect schedules the asynchronous \<^verbatim>\<open>processPDF\<close> on a timer and React
  runs the effect again, after its cleanup, whenever one of its dependencies has changed at
  a render: \<^verbatim>\<open>userQuota\<close> is a new object after every stored reply, and
  \<^verbatim>\<open>onComplete\<close> is a new function whenever the parent renders again. Several calls of
  \<^verbatim>\<open>processPDF\<close> can therefore be under way at once, each with the \<^verbatim>\<open>userQuota\<close>
  of the render that scheduled it. A call is at one of these points:
  awaiting the first quota fetch; resumed after it; awaiting the upload; awaiting the second
  quota fetch; resumed after it, with success or with the error it threw; waiting for the
  timer that calls \<^verbatim>\<open>onComplete\<close>; finished.
\<close>

datatype run_pc =
    AwaitQuota
  | QuotaArrived
  | AwaitUpload
  | AwaitQuotaAgain ProcessedData
  | QuotaArrivedAgain ProcessedData
  | QuotaFailedAgain ApiError
  | AwaitCompletion ProcessedData
  | Finished

text \<open>
  The state of a mounted loader: whether it is still mounted, the pending timer of the
  latest effect run (with the \<^verbatim>\<open>userQuota\<close> of its closure), the calls of
  \<^verbatim>\<open>processPDF\<close> started so far (each with the \<^verbatim>\<open>userQuota\<close> of its closure), the
  pricing store, and the effects performed so far.
\<close>

record Loader =
  loader_mounted :: bool
  loader_timer :: "UserQuota option option"
  loader_runs :: "(UserQuota option \<times> run_pc) list"
  loader_store :: PricingStore
  loader_trace :: "loader_effect list"

text \<open>
  What happens to a loader is decided outside of it: a dependency changes and the effect
  runs again, the timer fires, the server answers a quota fetch or the upload of the
  \<open>i\<close>-th call, the \<open>i\<close>-th call resumes after an awaited fetch, its completion timer
  fires, the loader is unmounted.
\<close>

datatype loader_event =
    Rerender
  | TimerFires
  | QuotaReply nat "ApiError + UserQuota option"
  | Resume nat
  | UploadReply nat "ApiError + ProcessedData"
  | CompletionTimer nat
  | Unmount

definition emit :: "loader_effect list \<Rightarrow> Loader \<Rightarrow> Loader" where
  "emit effects l = l\<lparr>loader_trace := loader_trace l @ effects\<rparr>"

definition set_run :: "nat \<Rightarrow> run_pc \<Rightarrow> Loader \<Rightarrow> Loader" where
  "set_run i pc l =
     l\<lparr>loader_runs := (loader_runs l)[i := (fst (loader_runs l ! i), pc)]\<rparr>"

text \<open>
  One run of the effect, after the cleanup of the previous run has cleared its timer. The
  first statement calls \<^verbatim>\<open>setIsProcessing\<close>; when the parent passed none, the call
  throws, no timer is set and React takes the component down. Otherwise a timer is set for
  \<^verbatim>\<open>processPDF\<close>, which closes over the \<^verbatim>\<open>userQuota\<close> of this render.
\<close>

definition run_effect :: "LoaderProps \<Rightarrow> Loader \<Rightarrow> Loader" where
  "run_effect props l =
     (if props_setIsProcessing props then
        emit [SetIsProcessing True] (l\<lparr>loader_timer := Some (userQuota (loader_store l))\<rparr>)
      else
        emit [Throws ''setIsProcessing is not a function'']
          (l\<lparr>loader_mounted := False, loader_timer := None\<rparr>))"

definition mount :: "LoaderProps \<Rightarrow> PricingStore \<Rightarrow> Loader" where
  "mount props store =
     run_effect props
       \<lparr>loader_mounted = True, loader_timer = None, loader_runs = [],
        loader_store = store, loader_trace = []\<rparr>"

text \<open>
  A quota reply reaches the store first (\<^verbatim>\<open>fetchUserQuota\<close> stores the body or records
  the failure); the awaiting call resumes later. A failure of the first fetch is thrown out
  of \<^verbatim>\<open>processPDF\<close>, which ends there; a failure of the second one is caught.
\<close>

fun quota_reply :: "nat \<Rightarrow> ApiError + UserQuota option \<Rightarrow> run_pc \<Rightarrow> Loader \<Rightarrow> Loader" where
  "quota_reply i reply AwaitQuota l =
     set_run i (case reply of Inl e \<Rightarrow> Finished | Inr d \<Rightarrow> QuotaArrived)
       (l\<lparr>loader_store := snd (fetchUserQuota reply (loader_store l))\<rparr>)"
| "quota_reply i reply (AwaitQuotaAgain data) l =
     set_run i (case reply of Inl e \<Rightarrow> QuotaFailedAgain e | Inr d \<Rightarrow> QuotaArrivedAgain data)
       (l\<lparr>loader_store := snd (fetchUserQuota reply (loader_store l))\<rparr>)"
| "quota_reply i reply pc l = l"

text \<open>
  A call resumes after an awaited fetch. After the first fetch it tests the
  \<^verbatim>\<open>userQuota\<close> of its closure (not the fetched value): when that is exhausted it opens
  the modal and returns, otherwise it posts the upload. After the second fetch it tests the
  same value again and sets the timer for \<^verbatim>\<open>onComplete\<close>; an error of the second fetch
  goes through the \<^verbatim>\<open>catch\<close> branch.
\<close>

fun resume :: "LoaderProps \<Rightarrow> nat \<Rightarrow> UserQuota option \<Rightarrow> run_pc \<Rightarrow> Loader \<Rightarrow> Loader" where
  "resume props i quota QuotaArrived l =
     (if quota_exhausted quota
      then set_run i Finished (emit [SetShowSubscribeModal True, SetIsProcessing False] l)
      else set_run i AwaitUpload
             (emit [ApiPost (pdfAPI_processPDF (props_file props) (props_time props))] l))"
| "resume props i quota (QuotaArrivedAgain data) l =
     set_run i (AwaitCompletion data)
       (emit (if quota_exhausted quota then [SetShowSubscribeModal True] else []) l)"
| "resume props i quota (QuotaFailedAgain err) l =
     set_run i Finished (emit (on_upload_error err) l)"
| "resume props i quota pc l = l"

text \<open>
  The upload settles: an error goes through the \<^verbatim>\<open>catch\<close> branch; a response sets the
  progress and starts the second quota fetch.
\<close>

fun upload_reply :: "nat \<Rightarrow> ApiError + ProcessedData \<Rightarrow> run_pc \<Rightarrow> Loader \<Rightarrow> Loader" where
  "upload_reply i (Inl err) AwaitUpload l = set_run i Finished (emit (on_upload_error err) l)"
| "upload_reply i (Inr data) AwaitUpload l =
     set_run i (AwaitQuotaAgain data)
       (emit [SetProgress 100, SetCurrentStep 3, FetchUserQuota]
          (l\<lparr>loader_store := fetch_started (loader_store l)\<rparr>))"
| "upload_reply i reply pc l = l"

fun completion_timer :: "nat \<Rightarrow> run_pc \<Rightarrow> Loader \<Rightarrow> Loader" where
  "completion_timer i (AwaitCompletion data) l =
     set_run i Finished (emit [OnComplete data, SetIsProcessing False] l)"
| "completion_timer i pc l = l"

text \<open>
  One step of the loader. An event that does not apply (no pending timer, no such call,
  a call at another point, a loader already unmounted) changes nothing. When the timer
  fires, \<^verbatim>\<open>processPDF\<close> clears the error, starts the first quota fetch and awaits it.
  Unmounting runs the cleanup, which clears the pending timer; calls under way go on.
\<close>

fun loader_step :: "LoaderProps \<Rightarrow> loader_event \<Rightarrow> Loader \<Rightarrow> Loader" where
  "loader_step props Rerender l = (if loader_mounted l then run_effect props l else l)"
| "loader_step props TimerFires l =
     (case loader_timer l of
        None \<Rightarrow> l
      | Some quota \<Rightarrow>
          emit [SetError None, FetchUserQuota]
            (l\<lparr>loader_timer := None,
               loader_runs := loader_runs l @ [(quota, AwaitQuota)],
               loader_store := fetch_started (loader_store l)\<rparr>))"
| "loader_step props (QuotaReply i reply) l =
     (if i < length (loader_runs l) then quota_reply i reply (snd (loader_runs l ! i)) l else l)"
| "loader_step props (Resume i) l =
     (if i < length (loader_runs l)
      then resume props i (fst (loader_runs l ! i)) (snd (loader_runs l ! i)) l else l)"
| "loader_step props (UploadReply i reply) l =
     (if i < length (loader_runs l) then upload_reply i reply (snd (loader_runs l ! i)) l else l)"
| "loader_step props (CompletionTimer i) l =
     (if i < length (loader_runs l) then completion_timer i (snd (loader_runs l ! i)) l else l)"
| "loader_step props Unmount l =
     (if loader_mounted l then l\<lparr>loader_mounted := False, loader_timer := None\<rparr> else l)"

text \<open>
  A mounted loader under a schedule of events. Every behaviour of the component is the
  result of some schedule; the schedules also cover effect runs that React would not start.
\<close>

fun run_events :: "LoaderProps \<Rightarrow> loader_event list \<Rightarrow> Loader \<Rightarrow> Loader" where
  "run_events props [] l = l"
| "run_events props (e # es) l = run_events props es (loader_step props e l)"

definition ProcessingLoader :: "LoaderProps \<Rightarrow> PricingStore \<Rightarrow> loader_event list \<Rightarrow> Loader" where
  "ProcessingLoader props store events = run_events props events (mount props store)"

text \<open>
  Conditions on a schedule. The user's quota stays exhausted: every quota fetch that
  succeeds is answered with an exhausted quota. Nothing fails and the upload is answered
  with a given response: every quota fetch succeeds and every upload returns that response.
\<close>

fun exhausted_reply :: "loader_event \<Rightarrow> bool" where
  "exhausted_reply (QuotaReply i (Inr d)) = quota_exhausted d"
| "exhausted_reply e = True"

fun answers_with :: "ProcessedData \<Rightarrow> loader_event \<Rightarrow> bool" where
  "answers_with data (QuotaReply i (Inl e)) = False"
| "answers_with data (UploadReply i reply) = (reply = Inr data)"
| "answers_with data e = True"

text \<open>
  Two conditions on a loader state that the steps preserve: the quota in the store and in
  every closure (of the pending timer and of the calls under way) is exhausted; no call is
  resuming from a failed fetch.
\<close>

definition closures_exhausted :: "Loader \<Rightarrow> bool" where
  "closures_exhausted l =
     (quota_exhausted (userQuota (loader_store l)) \<and>
      (\<forall>q. loader_timer l = Some q \<longrightarrow> quota_exhausted q) \<and>
      (\<forall>x \<in> set (loader_runs l). quota_exhausted (fst x)))"

definition no_failed_call :: "Loader \<Rightarrow> bool" where
  "no_failed_call l = (\<forall>x \<in> set (loader_runs l). \<forall>err. snd x \<noteq> QuotaFailedAgain err)"

section \<open>Selection pipeline of the backend\<close>

text \<open>
  The backend's processing module (\<^verbatim>\<open>backend/pdf_processor.py\<close>, with
  \<^verbatim>\<open>backend/models.py\<close> and \<^verbatim>\<open>backend/main.py\<close>) is not among the sources; only its
  README is. The definitions of this section follow the specification's sections 3, 4.4,
  4.5 and 4.6. Times and scores are rationals here.
\<close>

text \<open>
  Modelled from the spec: the configuration that the missing \<^verbatim>\<open>pdf_processor.py\<close>
  reads (reading speed, summarization input and output bounds, the per-chunk condensation
  ceiling in minutes, the key-point count, the high-importance threshold).
\<close>

record Config =
  words_per_minute :: nat
  max_summary_input :: nat
  max_summary_output :: nat
  condense_ceiling :: rat
  key_point_count :: nat
  high_importance :: rat

text \<open>
  Modelled from the spec: the Chunk of the missing \<^verbatim>\<open>models.py\<close> (text body, page,
  word count, headings, salient terms, importance score).
\<close>

record Chunk =
  body :: string
  page :: nat
  words :: nat
  heading_list :: "string list"
  keyword_list :: "string list"
  chunk_score :: rat

text \<open>
  Modelled from the spec: the estimated reading time of a chunk, its word count divided by
  the configured reading speed (computed in the missing \<^verbatim>\<open>pdf_processor.py\<close>).
\<close>

definition reading_time :: "Config \<Rightarrow> Chunk \<Rightarrow> rat" where
  "reading_time cfg c = of_nat (words c) / of_nat (words_per_minute cfg)"

text \<open>
  Modelled from the spec: the SelectionResult of the missing Budget Selector (chosen chunks
  in presentation order, total reading time, total word count, warnings).
\<close>

record SelectionResult =
  selected :: "Chunk list"
  total_reading_time :: rat
  total_word_count :: nat
  warnings :: "string list"

text \<open>
  Modelled from the spec: the bookkeeping of the missing Budget Selector's result, the
  totals being those of the chosen chunks.
\<close>

definition selection_result :: "Config \<Rightarrow> Chunk list \<Rightarrow> string list \<Rightarrow> SelectionResult" where
  "selection_result cfg chosen ws =
     \<lparr>selected = chosen,
      total_reading_time = sum_list (map (reading_time cfg) chosen),
      total_word_count = sum_list (map words chosen),
      warnings = ws\<rparr>"

text \<open>
  Modelled from the spec: the greedy pass of the missing Budget Selector. Candidates come
  paired with their document position; one is accepted while the running total of reading
  time stays at or under the budget, and one that would exceed it is skipped and the pass
  goes on with the next.
\<close>

fun greedy :: "Config \<Rightarrow> rat \<Rightarrow> rat \<Rightarrow> (nat \<times> Chunk) list \<Rightarrow> (nat \<times> Chunk) list" where
  "greedy cfg budget running [] = []"
| "greedy cfg budget running (x # xs) =
     (if running + reading_time cfg (snd x) \<le> budget
      then x # greedy cfg budget (running + reading_time cfg (snd x)) xs
      else greedy cfg budget running xs)"

text \<open>
  Modelled from the spec: the selection order of the missing Budget Selector, importance
  score descending, equal scores in document order (a stable sort).
\<close>

definition by_score :: "(nat \<times> Chunk) list \<Rightarrow> (nat \<times> Chunk) list" where
  "by_score candidates = sort_key (\<lambda>x. - chunk_score (snd x)) candidates"

text \<open>
  Modelled from the spec: the presentation order of the missing Budget Selector, the
  accepted candidates sorted back by document position.
\<close>

definition by_position :: "(nat \<times> Chunk) list \<Rightarrow> Chunk list" where
  "by_position accepted = map snd (sort_key fst accepted)"

text \<open>
  Modelled from the spec: the smallest chunk that the missing Budget Selector's edge case
  speaks of, the first one of least word count.
\<close>

fun smallest :: "Chunk \<Rightarrow> Chunk list \<Rightarrow> Chunk" where
  "smallest c [] = c"
| "smallest c (d # ds) = smallest (if words d < words c then d else c) ds"

text \<open>
  Modelled from the spec: the missing Budget Selector (section 4.4). The budget is in
  minutes. No chunks: an empty selection. The smallest chunk already over the budget: that
  chunk alone, with a warning. Otherwise the greedy pass in score order, presented in
  document order, without a warning.
\<close>

definition select_chunks :: "Config \<Rightarrow> nat \<Rightarrow> Chunk list \<Rightarrow> SelectionResult" where
  "select_chunks cfg budget chunks =
     (case chunks of
        [] \<Rightarrow> selection_result cfg [] []
      | c # cs \<Rightarrow>
          if reading_time cfg (smallest c cs) > of_nat budget
          then selection_result cfg [smallest c cs]
                 [''The time budget is too small for any complete chunk'']
          else selection_result cfg
                 (by_position (greedy cfg (of_nat budget) 0 (by_score (enumerate 0 chunks))))
                 [])"

text \<open>
  Modelled from the spec: the word count that the missing Condenser recomputes for a
  rewritten text, the number of maximal runs of characters other than blank and line feed.
\<close>

fun count_words :: "bool \<Rightarrow> string \<Rightarrow> nat" where
  "count_words in_word [] = 0"
| "count_words in_word (c # cs) =
     (if c = CHR '' '' \<or> c = CHR 0x0A then count_words False cs
      else (if in_word then 0 else 1) + count_words True cs)"

text \<open>
  Modelled from the spec: the missing Condenser (section 4.5). The summarization capability
  is a parameter that takes the text and the output bound and answers \<open>None\<close> when the
  call fails or times out. A chunk at or under the ceiling is left alone; an oversized one
  is sent truncated to the input bound, and either replaced by the rewrite with the same
  headings and keywords and a recomputed word count, or, on failure, returned as it was
  together with a processing note.
\<close>

definition condense ::
  "Config \<Rightarrow> (string \<Rightarrow> nat \<Rightarrow> string option) \<Rightarrow> Chunk \<Rightarrow> Chunk \<times> string list" where
  "condense cfg summarize c =
     (if reading_time cfg c \<le> condense_ceiling cfg then (c, [])
      else
        (case summarize (take (max_summary_input cfg) (body c)) (max_summary_output cfg) of
           None \<Rightarrow> (c, [''Summarization unavailable: a section is shown in full''])
         | Some rewrite \<Rightarrow> (c\<lparr>body := rewrite, words := count_words False rewrite\<rparr>, [])))"

text \<open>
  Modelled from the spec: the missing pipeline's join over the condensation of every
  selected chunk, in selection-result order, with the notes collected.
\<close>

definition condense_all ::
  "Config \<Rightarrow> (string \<Rightarrow> nat \<Rightarrow> string option) \<Rightarrow> Chunk list \<Rightarrow> Chunk list \<times> string list" where
  "condense_all cfg summarize cs =
     (map (\<lambda>c. fst (condense cfg summarize c)) cs,
      concat (map (\<lambda>c. snd (condense cfg summarize c)) cs))"

text \<open>
  Modelled from the spec: the StudyPack of the missing \<^verbatim>\<open>models.py\<close> (section 3).
\<close>

record StudyPackData =
  pack_outline :: "(string \<times> nat) list"
  pack_content :: "Chunk list"
  pack_key_points :: "KeyPoint list"
  pack_quiz :: "QuizQuestion list"
  pack_total_reading_time :: rat
  pack_total_word_count :: nat
  pack_filename :: string
  pack_notes :: "string list"

text \<open>
  Modelled from the spec: the outline of the missing Pack Assembler, one entry per distinct
  heading in document order, a repeated heading kept at its first place.
\<close>

fun distinct_headings :: "string list \<Rightarrow> (string \<times> nat) list \<Rightarrow> (string \<times> nat) list" where
  "distinct_headings seen [] = []"
| "distinct_headings seen (e # es) =
     (if fst e \<in> set seen then distinct_headings seen es
      else e # distinct_headings (fst e # seen) es)"

text \<open>
  Modelled from the spec: the outline entries of the missing Pack Assembler, the headings
  of the chunks with their pages, in document order and without repetition.
\<close>

definition outline_of :: "Chunk list \<Rightarrow> (string \<times> nat) list" where
  "outline_of cs =
     distinct_headings [] (concat (map (\<lambda>c. map (\<lambda>h. (h, page c)) (heading_list c)) cs))"

text \<open>
  Modelled from the spec: the terminal error of the missing Text Extractor. The
  collaborators of the pipeline whose behaviour the specification leaves open are text
  extraction (which may fail with this error), chunking, scoring, summarization, quiz
  generation (\<open>None\<close> on failure), the paraphrase of a chunk into a one-sentence point and
  the detection of caveat language.
\<close>

datatype ExtractionError = InvalidPDF | Unreadable | NoExtractableText

text \<open>
  Modelled from the spec: the capabilities that the missing pipeline is handed, one field
  for each collaborator named above.
\<close>

record Collaborators =
  extract_text :: "string \<Rightarrow> ExtractionError + (nat \<times> string) list"
  chunk_pages :: "(nat \<times> string) list \<Rightarrow> Chunk list"
  score_chunks :: "Chunk list \<Rightarrow> Chunk list"
  summarize_text :: "string \<Rightarrow> nat \<Rightarrow> string option"
  generate_quiz :: "Chunk list \<Rightarrow> QuizQuestion list option"
  paraphrase :: "Chunk \<Rightarrow> string"
  has_caveat :: "string \<Rightarrow> bool"

text \<open>
  Modelled from the spec: the key points of the missing Pack Assembler, from the top chunks
  by importance, each categorized as warning, important or normal.
\<close>

definition key_points_of :: "Config \<Rightarrow> Collaborators \<Rightarrow> Chunk list \<Rightarrow> KeyPoint list" where
  "key_points_of cfg env cs =
     map (\<lambda>c. \<lparr>point = paraphrase env c,
               category = (if has_caveat env (body c) then ''warning''
                           else if chunk_score c > high_importance cfg then ''important''
                           else ''normal'')\<rparr>)
       (take (key_point_count cfg) (sort_key (\<lambda>c. - chunk_score c) cs))"

text \<open>
  Modelled from the spec: the missing Pack Assembler (section 4.6). Key points and quiz are
  populated only when the plan allows it; a failed quiz generation gives the empty quiz.
  The notes are the selection warnings followed by the condensation notes.
\<close>

definition assemble ::
  "Config \<Rightarrow> Collaborators \<Rightarrow> bool \<Rightarrow> string \<Rightarrow> string list \<Rightarrow> Chunk list \<times> string list
   \<Rightarrow> StudyPackData" where
  "assemble cfg env plan_allows filename selection_warnings condensed =
     \<lparr>pack_outline = outline_of (fst condensed),
      pack_content = fst condensed,
      pack_key_points = (if plan_allows then key_points_of cfg env (fst condensed) else []),
      pack_quiz =
        (if plan_allows
         then (case generate_quiz env (fst condensed) of None \<Rightarrow> [] | Some qs \<Rightarrow> qs)
         else []),
      pack_total_reading_time = sum_list (map (reading_time cfg) (fst condensed)),
      pack_total_word_count = sum_list (map words (fst condensed)),
      pack_filename = filename,
      pack_notes = selection_warnings @ snd condensed\<rparr>"

text \<open>
  Modelled from the spec: the missing pipeline, Extract, Chunk, Score, Select, Condense,
  Assemble. Only a failed extraction ends it with an error.
\<close>

definition pipeline ::
  "Config \<Rightarrow> Collaborators \<Rightarrow> bool \<Rightarrow> string \<Rightarrow> nat \<Rightarrow> string \<Rightarrow> ExtractionError + StudyPackData" where
  "pipeline cfg env plan_allows pdf budget filename =
     (case extract_text env pdf of
        Inl e \<Rightarrow> Inl e
      | Inr pages \<Rightarrow>
          Inr (assemble cfg env plan_allows filename
                 (warnings (select_chunks cfg budget (score_chunks env (chunk_pages env pages))))
                 (condense_all cfg (summarize_text env)
                    (selected (select_chunks cfg budget
                       (score_chunks env (chunk_pages env pages)))))))"

text \<open>
  Modelled from the spec: the wire shape (section 6) in which the missing
  \<^verbatim>\<open>main.py\<close> serializes a chunk for the frontend.
\<close>

definition chunk_to_wire :: "Config \<Rightarrow> Chunk \<Rightarrow> ContentChunk" where
  "chunk_to_wire cfg c =
     \<lparr>chunk_text = body c,
      page_number = int (page c),
      word_count = int (words c),
      reading_time_minutes = reading_time cfg c,
      importance_score = chunk_score c,
      headings = Some (heading_list c),
      chunk_keywords = Some (keyword_list c)\<rparr>"

text \<open>
  Modelled from the spec: the serialized pack of the missing \<^verbatim>\<open>main.py\<close>, every list
  present. The reading time of an outline entry is left at zero.
\<close>

definition to_wire :: "Config \<Rightarrow> StudyPackData \<Rightarrow> ProcessedData" where
  "to_wire cfg pack =
     \<lparr>outline = Some (map (\<lambda>e. \<lparr>outline_title = fst e, outline_page_number = int (snd e),
                                 outline_reading_time_minutes = 0\<rparr>) (pack_outline pack)),
      condensed_content = Some (map (chunk_to_wire cfg) (pack_content pack)),
      key_points = Some (pack_key_points pack),
      quiz = Some (pack_quiz pack),
      key_points_warning = None,
      processing_notes = Some (pack_notes pack)\<rparr>"

section \<open>Example values\<close>

definition example_free_quota :: UserQuota where
  "example_free_quota =
     \<lparr>plan_type = ''free'', pdfs_used = 3, pdf_limit = Some 3, can_process = False,
      message = ''limit reached''\<rparr>"

definition example_paid_quota :: UserQuota where
  "example_paid_quota =
     \<lparr>plan_type = ''starter'', pdfs_used = 3, pdf_limit = Some 20, can_process = True,
      message = ''ok''\<rparr>"

definition example_chunk :: ContentChunk where
  "example_chunk =
     \<lparr>chunk_text = ''Cells divide.'', page_number = 1, word_count = 2,
      reading_time_minutes = 1 / 100, importance_score = 8 / 10,
      headings = Some [''Mitosis''], chunk_keywords = Some [''cell'']\<rparr>"

definition example_data :: ProcessedData where
  "example_data =
     \<lparr>outline = Some [],
      condensed_content = Some [example_chunk],
      key_points = Some [\<lparr>point = ''Cells divide.'', category = ''normal''\<rparr>],
      quiz = Some [\<lparr>question = ''What divides?'', options = [''Cells'', ''Rocks''],
                    correct_answer = ''Cells'', explanation = ''See text.''\<rparr>],
      key_points_warning = None,
      processing_notes = Some []\<rparr>"

definition example_pdf :: File where
  "example_pdf = \<lparr>file_name = ''biology.pdf'', file_type = ''application/pdf'', file_size = 52000\<rparr>"

definition initial_app :: App where
  "initial_app =
     \<lparr>currentState = Upload, selectedFile = None, selectedTime = None, processedData = None,
      currentHistoryId = None, showSubscribeModal = False, quotaError = None\<rparr>"

definition initial_store :: PricingStore where
  "initial_store = \<lparr>userQuota = None, pricing_isLoading = False, pricing_error = None\<rparr>"

text \<open>
  The title as the specification words it: the first heading of the chunk, or the numbered
  fallback when the chunk has no headings.
\<close>

definition claimed_title :: "nat \<Rightarrow> ContentChunk \<Rightarrow> string" where
  "claimed_title index chunk =
     (case headings chunk of
        Some (h # hs) \<Rightarrow> h
      | _ \<Rightarrow> ''Section '' @ string_of_nat (index + 1))"

definition empty_heading_chunk :: ContentChunk where
  "empty_heading_chunk =
     \<lparr>chunk_text = ''Cells divide.'', page_number = 1, word_count = 2,
      reading_time_minutes = 1 / 100, importance_score = 8 / 10,
      headings = Some [''''], chunk_keywords = Some [''cell'']\<rparr>"

definition empty_heading_data :: ProcessedData where
  "empty_heading_data =
     \<lparr>outline = Some [], condensed_content = Some [empty_heading_chunk], key_points = Some [],
      quiz = Some [], key_points_warning = None, processing_notes = Some []\<rparr>"


definition example_config :: Config where
  "example_config =
     \<lparr>words_per_minute = 250, max_summary_input = 3000, max_summary_output = 500,
      condense_ceiling = 1, key_point_count = 3, high_importance = 7 / 10\<rparr>"

definition intro_chunk :: Chunk where
  "intro_chunk =
     \<lparr>body = ''Cells are the unit of life.'', page = 1, words = 300,
      heading_list = [''Introduction''], keyword_list = [''cell''], chunk_score = 2 / 10\<rparr>"

definition methods_chunk :: Chunk where
  "methods_chunk =
     \<lparr>body = ''Mitosis has four phases.'', page = 2, words = 300,
      heading_list = [''Mitosis''], keyword_list = [''phase''], chunk_score = 9 / 10\<rparr>"

definition long_chunk :: Chunk where
  "long_chunk =
     \<lparr>body = ''A long passage.'', page = 1, words = 400,
      heading_list = [], keyword_list = [], chunk_score = 5 / 10\<rparr>"

definition failing_env :: Collaborators where
  "failing_env =
     \<lparr>extract_text = (\<lambda>pdf. if pdf = [] then Inl InvalidPDF
                            else Inr [(1, ''Cells are the unit of life.''),
                                      (2, ''Mitosis has four phases.'')]),
      chunk_pages = (\<lambda>pages. [intro_chunk, methods_chunk]),
      score_chunks = (\<lambda>cs. cs),
      summarize_text = (\<lambda>t n. None),
      generate_quiz = (\<lambda>cs. None),
      paraphrase = body,
      has_caveat = (\<lambda>t. False)\<rparr>"


definition example_props :: LoaderProps where
  "example_props = \<lparr>props_file = example_pdf, props_time = 20, props_setIsProcessing = True\<rparr>"

definition exhausted_store :: PricingStore where
  "exhausted_store =
     \<lparr>userQuota = Some example_free_quota, pricing_isLoading = False, pricing_error = None\<rparr>"

text \<open>
  Schedules for a loader that was given its callback. The effect runs again after each
  change of the store; the first call of \<^verbatim>\<open>processPDF\<close> is followed to its end.
\<close>

definition blocked_schedule :: "loader_event list" where
  "blocked_schedule =
     [TimerFires, Rerender, QuotaReply 0 (Inr (Some example_free_quota)), Rerender, Resume 0]"


definition completing_schedule :: "ProcessedData \<Rightarrow> loader_event list" where
  "completing_schedule data =
     [TimerFires, Rerender, QuotaReply 0 (Inr None), Rerender, Resume 0,
      UploadReply 0 (Inr data), Rerender, QuotaReply 0 (Inr None), Rerender, Resume 0,
      CompletionTimer 0, Unmount]"

section \<open>Theorems\<close>

subsection \<open>Session expiry\<close>

text \<open>
  Claim C10. Whenever a response with HTTP status 401 arrives, the auth store is reset:
  user and token are null, \<^verbatim>\<open>isAuthenticated\<close> is false, the error is the
  session-expired message, and the persisted part of the state holds no credentials.
\<close>

theorem token_expiration_resets_auth:
  "user (api_response 401 state) = None \<and>
   token (api_response 401 state) = None \<and>
   isAuthenticated (api_response 401 state) = False \<and>
   error (api_response 401 state) = Some ''Your session has expired. Please sign in again.'' \<and>
   partialize (api_response 401 state) =
     \<lparr>persisted_user = None, persisted_token = None, persisted_isAuthenticated = False\<rparr>"
  by (simp add: api_response_def settle_def validateStatus_def handleTokenExpiration_def
      partialize_def)

subsection \<open>File upload\<close>

text \<open>
  Claim C8. A dropped file reaches \<^verbatim>\<open>onFileSelect\<close> exactly when it is the first file
  and its MIME type is \<^verbatim>\<open>application/pdf\<close>; a file chosen in the browse dialog reaches
  it whenever it is the first file, without a type check. So some non-PDF file is forwarded
  by the picker and ignored by the drop zone, which only clears the drag highlight.
\<close>

theorem drop_checks_type_picker_does_not:
  "(OnFileSelect f \<in> set (handleDrop files) \<longleftrightarrow>
      first_file files = Some f \<and> file_type f = ''application/pdf'') \<and>
   (OnFileSelect f \<in> set (handleFileSelect_input files) \<longleftrightarrow> first_file files = Some f) \<and>
   (\<exists>g. file_type g \<noteq> ''application/pdf'' \<and>
        handleFileSelect_input (Some [g]) = [OnFileSelect g] \<and>
        handleDrop (Some [g]) = [SetDragActive False])"
proof (intro conjI)
  show "OnFileSelect f \<in> set (handleDrop files) \<longleftrightarrow>
      first_file files = Some f \<and> file_type f = ''application/pdf''"
    by (auto simp: handleDrop_def split: option.splits if_splits)
  show "OnFileSelect f \<in> set (handleFileSelect_input files) \<longleftrightarrow> first_file files = Some f"
    by (auto simp: handleFileSelect_input_def split: option.splits)
  let ?g = "\<lparr>file_name = ''notes.txt'', file_type = ''text/plain'', file_size = 12\<rparr>"
  have "file_type ?g \<noteq> ''application/pdf'' \<and>
        handleFileSelect_input (Some [?g]) = [OnFileSelect ?g] \<and>
        handleDrop (Some [?g]) = [SetDragActive False]"
    by (simp add: handleFileSelect_input_def handleDrop_def)
  then show "\<exists>g. file_type g \<noteq> ''application/pdf'' \<and>
        handleFileSelect_input (Some [g]) = [OnFileSelect g] \<and>
        handleDrop (Some [g]) = [SetDragActive False]"
    by blast
qed

theorem drop_checks_type_picker_does_not_witness:
  "OnFileSelect \<lparr>file_name = ''notes.txt'', file_type = ''text/plain'', file_size = 12\<rparr>
     \<in> set (handleFileSelect_input
         (Some [\<lparr>file_name = ''notes.txt'', file_type = ''text/plain'', file_size = 12\<rparr>])) \<and>
   OnFileSelect \<lparr>file_name = ''notes.txt'', file_type = ''text/plain'', file_size = 12\<rparr>
     \<notin> set (handleDrop
         (Some [\<lparr>file_name = ''notes.txt'', file_type = ''text/plain'', file_size = 12\<rparr>])) \<and>
   OnFileSelect \<lparr>file_name = ''a.pdf'', file_type = ''application/pdf'', file_size = 12\<rparr>
     \<in> set (handleDrop
         (Some [\<lparr>file_name = ''a.pdf'', file_type = ''application/pdf'', file_size = 12\<rparr>]))"
  using drop_checks_type_picker_does_not
    [of "\<lparr>file_name = ''notes.txt'', file_type = ''text/plain'', file_size = 12\<rparr>"
        "Some [\<lparr>file_name = ''notes.txt'', file_type = ''text/plain'', file_size = 12\<rparr>]"]
    drop_checks_type_picker_does_not
    [of "\<lparr>file_name = ''a.pdf'', file_type = ''application/pdf'', file_size = 12\<rparr>"
        "Some [\<lparr>file_name = ''a.pdf'', file_type = ''application/pdf'', file_size = 12\<rparr>]"]
  by simp

subsection \<open>Download\<close>

text \<open>
  Claim C9. Without a history id \<^verbatim>\<open>handleDownload\<close> only shows the alert
  "Download not available for this session"; every download request it issues is for the
  history id it was given, and every request of the history list is for the id of the
  listed item; and the download button, which the header renders, is disabled whenever a
  download is in progress, there is no history id, or the quota's plan is free.
\<close>

theorem download_needs_history_id:
  "(historyId = None \<longrightarrow>
      handleDownload historyId server = [Alert ''Download not available for this session'']) \<and>
   (ApiGet url \<in> set (handleDownload historyId server) \<longrightarrow>
      (\<exists>n. historyId = Some n \<and> n \<noteq> 0 \<and> url = download_url n)) \<and>
   (ApiGet url \<in> set (History_handleDownload item_id server) \<longrightarrow>
      url = download_url item_id) \<and>
   (downloading \<or> historyId = None \<or> (\<exists>q. quota = Some q \<and> plan_type q = ''free'') \<longrightarrow>
      download_disabled downloading historyId quota) \<and>
   hd (StudyPack quota downloading historyId pd) =
     HeaderBlock (download_disabled downloading historyId quota)"
  by (auto simp: handleDownload_def History_handleDownload_def download_disabled_def
      no_history_id_def is_free_def StudyPack_def split: option.splits if_splits)

theorem download_needs_history_id_witness:
  "handleDownload None (\<lambda>u. None) = [Alert ''Download not available for this session''] \<and>
   ApiGet (download_url 7) \<in> set (handleDownload (Some 7) (\<lambda>u. None)) \<and>
   download_disabled True (Some 7) None \<and>
   download_disabled False None None"
  using download_needs_history_id [of None "\<lambda>u. None" "download_url 7" 7 True None None]
    download_needs_history_id [of "Some 7" "\<lambda>u. None" "download_url 7" 7 True None None]
    download_needs_history_id [of "None" "\<lambda>u. None" "download_url 7" 7 False None None]
  by (simp add: handleDownload_def)

subsection \<open>Plan gating of the study pack view\<close>

text \<open>
  Claim C5. When the quota's plan is \<^verbatim>\<open>free\<close>, the rendered study pack contains
  neither a key-takeaways block nor a quiz block, whatever the response lists hold, and it
  contains the two upgrade notices. For every other plan the key-takeaways block is shown
  whenever the key points are non-empty, and the quiz block whenever the quiz is non-empty.
\<close>

theorem free_plan_hides_takeaways_and_quiz:
  "(plan_type q = ''free'' \<longrightarrow>
      KeyTakeawaysBlock kps \<notin> set (StudyPack (Some q) downloading historyId pd) \<and>
      QuizBlock qs \<notin> set (StudyPack (Some q) downloading historyId pd) \<and>
      KeyTakeawaysUpgradeNotice \<in> set (StudyPack (Some q) downloading historyId pd) \<and>
      QuizUpgradeNotice \<in> set (StudyPack (Some q) downloading historyId pd)) \<and>
   (plan_type q \<noteq> ''free'' \<longrightarrow>
      (keyTakeaways pd \<noteq> [] \<longrightarrow>
         KeyTakeawaysBlock (keyTakeaways pd) \<in> set (StudyPack (Some q) downloading historyId pd)) \<and>
      (quiz_of pd \<noteq> [] \<longrightarrow>
         QuizBlock (quiz_of pd) \<in> set (StudyPack (Some q) downloading historyId pd)))"
  by (simp add: StudyPack_def not_free_def is_free_def)

theorem free_plan_hides_takeaways_and_quiz_witness:
  "plan_type example_free_quota = ''free'' \<and>
   keyTakeaways (Some example_data) \<noteq> [] \<and>
   quiz_of (Some example_data) \<noteq> [] \<and>
   KeyTakeawaysBlock (keyTakeaways (Some example_data))
     \<notin> set (StudyPack (Some example_free_quota) False (Some 4) (Some example_data)) \<and>
   QuizBlock (quiz_of (Some example_data))
     \<notin> set (StudyPack (Some example_free_quota) False (Some 4) (Some example_data)) \<and>
   KeyTakeawaysUpgradeNotice
     \<in> set (StudyPack (Some example_free_quota) False (Some 4) (Some example_data)) \<and>
   plan_type example_paid_quota \<noteq> ''free'' \<and>
   KeyTakeawaysBlock (keyTakeaways (Some example_data))
     \<in> set (StudyPack (Some example_paid_quota) False (Some 4) (Some example_data)) \<and>
   QuizBlock (quiz_of (Some example_data))
     \<in> set (StudyPack (Some example_paid_quota) False (Some 4) (Some example_data))"
  using free_plan_hides_takeaways_and_quiz
    [of example_free_quota "keyTakeaways (Some example_data)" False "Some 4" "Some example_data"
        "quiz_of (Some example_data)"]
    free_plan_hides_takeaways_and_quiz
    [of example_paid_quota "keyTakeaways (Some example_data)" False "Some 4" "Some example_data"
        "quiz_of (Some example_data)"]
  by (simp add: example_free_quota_def example_paid_quota_def example_data_def
      keyTakeaways_def quiz_of_def)

subsection \<open>Sections shown for a response\<close>

lemma length_map_index: "length (map_index f i xs) = length xs"
  by (induction xs arbitrary: i) simp_all

lemma nth_map_index: "k < length xs \<Longrightarrow> map_index f i xs ! k = f (i + k) (xs ! k)"
proof (induction xs arbitrary: i k)
  case Nil
  then show ?case by simp
next
  case (Cons x xs)
  then show ?case by (cases k) simp_all
qed

lemma importance_of_High: "importance_of score = ''High'' \<longleftrightarrow> score > 7 / 10"
  by (simp add: importance_of_def)

lemma importance_of_Medium:
  "importance_of score = ''Medium'' \<longleftrightarrow> 4 / 10 < score \<and> score \<le> 7 / 10"
  by (auto simp: importance_of_def)

lemma importance_of_Low: "importance_of score = ''Low'' \<longleftrightarrow> score \<le> 4 / 10"
  by (auto simp: importance_of_def)

lemma string_of_nat_one: "string_of_nat 1 = ''1''"
  by code_simp

lemma string_of_nat_1: "string_of_nat (Suc 0) = ''1''"
  using string_of_nat_one by simp

text \<open>
  A chunk whose first heading is the empty string is shown under the numbered fallback
  title, not under its first heading.
\<close>

theorem empty_first_heading_counterexample:
  "title (sections (Some empty_heading_data) ! 0) = ''Section 1'' \<and>
   claimed_title 0 empty_heading_chunk = '''' \<and>
   title (sections (Some empty_heading_data) ! 0) \<noteq> claimed_title 0 empty_heading_chunk"
  by (simp add: sections_def empty_heading_data_def empty_heading_chunk_def section_of_def
      claimed_title_def string_of_nat_1)

text \<open>
  Claim C7, amended. The section list is the in-order image of \<^verbatim>\<open>condensed_content\<close>:
  the \<open>i\<close>-th section has the chunk's first heading as title when that heading is a
  non-empty string, and "Section i+1" when the chunk has no headings or its first heading is
  empty; its content is the chunk's text; its key points are the chunk's keywords (none when
  the field is missing); its tier is High exactly when the score is above 0.7, Medium
  exactly when it is above 0.4 and at most 0.7, and Low exactly when it is at most 0.4.
\<close>

theorem sections_image_of_condensed_content:
  assumes "condensed_content d = Some chunks"
  shows "length (sections (Some d)) = length chunks \<and>
    (\<forall>i < length chunks.
       title (sections (Some d) ! i) =
         (case first_heading (headings (chunks ! i)) of
            None \<Rightarrow> ''Section '' @ string_of_nat (i + 1)
          | Some h \<Rightarrow> if h = [] then ''Section '' @ string_of_nat (i + 1) else h) \<and>
       content (sections (Some d) ! i) = chunk_text (chunks ! i) \<and>
       keyPoints (sections (Some d) ! i) = list_or_empty (chunk_keywords (chunks ! i)) \<and>
       (importance (sections (Some d) ! i) = ''High'' \<longleftrightarrow>
          importance_score (chunks ! i) > 7 / 10) \<and>
       (importance (sections (Some d) ! i) = ''Medium'' \<longleftrightarrow>
          4 / 10 < importance_score (chunks ! i) \<and> importance_score (chunks ! i) \<le> 7 / 10) \<and>
       (importance (sections (Some d) ! i) = ''Low'' \<longleftrightarrow>
          importance_score (chunks ! i) \<le> 4 / 10))"
proof (intro conjI allI impI)
  show "length (sections (Some d)) = length chunks"
    using assms by (simp add: sections_def length_map_index)
next
  fix i assume i: "i < length chunks"
  have nth: "sections (Some d) ! i = section_of i (chunks ! i)"
    using assms i by (simp add: sections_def nth_map_index)
  show "title (sections (Some d) ! i) =
         (case first_heading (headings (chunks ! i)) of
            None \<Rightarrow> ''Section '' @ string_of_nat (i + 1)
          | Some h \<Rightarrow> if h = [] then ''Section '' @ string_of_nat (i + 1) else h)"
    unfolding nth by (cases "first_heading (headings (chunks ! i))") (simp_all add: section_of_def)
  show "content (sections (Some d) ! i) = chunk_text (chunks ! i)"
    unfolding nth by (simp add: section_of_def)
  show "keyPoints (sections (Some d) ! i) = list_or_empty (chunk_keywords (chunks ! i))"
    unfolding nth by (simp add: section_of_def)
  show "importance (sections (Some d) ! i) = ''High'' \<longleftrightarrow>
          importance_score (chunks ! i) > 7 / 10"
    unfolding nth by (simp add: section_of_def importance_of_High)
  show "importance (sections (Some d) ! i) = ''Medium'' \<longleftrightarrow>
          4 / 10 < importance_score (chunks ! i) \<and> importance_score (chunks ! i) \<le> 7 / 10"
    unfolding nth by (simp add: section_of_def importance_of_Medium)
  show "importance (sections (Some d) ! i) = ''Low'' \<longleftrightarrow>
          importance_score (chunks ! i) \<le> 4 / 10"
    unfolding nth by (simp add: section_of_def importance_of_Low)
qed

theorem sections_image_of_condensed_content_witness:
  "condensed_content example_data = Some [example_chunk] \<and>
   length (sections (Some example_data)) = 1 \<and>
   title (sections (Some example_data) ! 0) = ''Mitosis'' \<and>
   content (sections (Some example_data) ! 0) = ''Cells divide.'' \<and>
   keyPoints (sections (Some example_data) ! 0) = [''cell''] \<and>
   importance (sections (Some example_data) ! 0) = ''High''"
  using sections_image_of_condensed_content [of example_data "[example_chunk]"]
  by (simp add: example_data_def example_chunk_def)

subsection \<open>The processing loader under a schedule\<close>

lemma emit_fields [simp]:
  "loader_trace (emit es l) = loader_trace l @ es"
  "loader_runs (emit es l) = loader_runs l"
  "loader_store (emit es l) = loader_store l"
  "loader_timer (emit es l) = loader_timer l"
  "loader_mounted (emit es l) = loader_mounted l"
  by (simp_all add: emit_def)

lemma set_run_fields [simp]:
  "loader_trace (set_run i pc l) = loader_trace l"
  "loader_runs (set_run i pc l) = (loader_runs l)[i := (fst (loader_runs l ! i), pc)]"
  "loader_store (set_run i pc l) = loader_store l"
  "loader_timer (set_run i pc l) = loader_timer l"
  "loader_mounted (set_run i pc l) = loader_mounted l"
  by (simp_all add: set_run_def)

lemma on_upload_error_no_post: "ApiPost r \<notin> set (on_upload_error err)"
  by (simp add: on_upload_error_def)

lemma quota_reply_trace [simp]: "loader_trace (quota_reply i reply pc l) = loader_trace l"
  by (cases pc) simp_all

lemma resume_post:
  "ApiPost r \<in> set (loader_trace (resume props i quota pc l)) \<Longrightarrow>
   ApiPost r \<in> set (loader_trace l) \<or>
   (r = pdfAPI_processPDF (props_file props) (props_time props) \<and> \<not> quota_exhausted quota)"
  by (cases pc) (auto simp: on_upload_error_no_post split: if_splits)

lemma upload_reply_post:
  "ApiPost r \<in> set (loader_trace (upload_reply i reply pc l)) \<Longrightarrow> ApiPost r \<in> set (loader_trace l)"
  by (cases reply; cases pc) (auto simp: on_upload_error_no_post)

lemma completion_timer_post:
  "ApiPost r \<in> set (loader_trace (completion_timer i pc l)) \<Longrightarrow> ApiPost r \<in> set (loader_trace l)"
  by (cases pc) auto

lemma step_post:
  assumes "ApiPost r \<in> set (loader_trace (loader_step props e l))"
  shows "ApiPost r \<in> set (loader_trace l) \<or>
     (r = pdfAPI_processPDF (props_file props) (props_time props) \<and>
      (\<exists>i < length (loader_runs l). e = Resume i \<and> \<not> quota_exhausted (fst (loader_runs l ! i))))"
proof (cases e)
  case Rerender
  with assms show ?thesis by (auto simp: run_effect_def split: if_splits)
next
  case TimerFires
  with assms show ?thesis by (auto split: option.splits)
next
  case (QuotaReply i reply)
  with assms show ?thesis by (auto split: if_splits)
next
  case (Resume i)
  with assms show ?thesis by (auto split: if_splits dest: resume_post)
next
  case (UploadReply i reply)
  with assms show ?thesis by (auto split: if_splits dest: upload_reply_post)
next
  case (CompletionTimer i)
  with assms show ?thesis by (auto split: if_splits dest: completion_timer_post)
next
  case Unmount
  with assms show ?thesis by (auto split: if_splits)
qed


lemma mount_no_post: "ApiPost r \<notin> set (loader_trace (mount props store))"
  by (simp add: mount_def run_effect_def)



lemma set_run_closures:
  "i < length (loader_runs l) \<Longrightarrow> closures_exhausted l \<Longrightarrow> closures_exhausted (set_run i pc l)"
  unfolding closures_exhausted_def
  by (auto dest!: set_update_subset_insert [THEN subsetD])

lemma closures_emit [simp]: "closures_exhausted (emit es l) = closures_exhausted l"
  by (simp add: closures_exhausted_def)

lemma closures_store:
  "closures_exhausted l \<Longrightarrow> quota_exhausted (userQuota s) \<Longrightarrow>
   closures_exhausted (l\<lparr>loader_store := s\<rparr>)"
  by (simp add: closures_exhausted_def)

lemma fetch_started_quota [simp]: "userQuota (fetch_started s) = userQuota s"
  by (simp add: fetch_started_def)

lemma closures_fetch_started [simp]:
  "closures_exhausted (l\<lparr>loader_store := fetch_started (loader_store l)\<rparr>) = closures_exhausted l"
  by (simp add: closures_exhausted_def)

lemma fetch_settled_quota:
  "userQuota (snd (fetchUserQuota reply s)) = (case reply of Inl e \<Rightarrow> userQuota s | Inr d \<Rightarrow> d)"
  by (simp add: fetchUserQuota_def split: sum.splits)

lemma step_closures:
  assumes "closures_exhausted l" and "exhausted_reply e"
  shows "closures_exhausted (loader_step props e l)"
proof (cases e)
  case Rerender
  with assms show ?thesis by (auto simp: run_effect_def closures_exhausted_def)
next
  case TimerFires
  with assms show ?thesis by (auto simp: closures_exhausted_def split: option.splits)
next
  case (QuotaReply i reply)
  show ?thesis
  proof (cases "i < length (loader_runs l)")
    case False
    with QuotaReply assms show ?thesis by simp
  next
    case True
    have q: "quota_exhausted (userQuota (snd (fetchUserQuota reply (loader_store l))))"
      using assms QuotaReply
      by (cases reply) (simp_all add: fetch_settled_quota closures_exhausted_def)
    have "closures_exhausted (quota_reply i reply pc l)" for pc
      using True assms(1) q by (cases pc) (simp_all add: set_run_closures closures_store)
    with True QuotaReply show ?thesis by simp
  qed
next
  case (Resume i)
  have "i < length (loader_runs l) \<Longrightarrow> closures_exhausted (resume props i quota pc l)" for quota pc
    using assms(1) by (cases pc) (simp_all add: set_run_closures)
  with Resume assms show ?thesis by simp
next
  case (UploadReply i reply)
  have "i < length (loader_runs l) \<Longrightarrow> closures_exhausted (upload_reply i reply pc l)" for pc
    using assms(1) by (cases reply; cases pc) (auto intro!: set_run_closures)
  with UploadReply assms show ?thesis by simp
next
  case (CompletionTimer i)
  have "i < length (loader_runs l) \<Longrightarrow> closures_exhausted (completion_timer i pc l)" for pc
    using assms(1) by (cases pc) (simp_all add: set_run_closures)
  with CompletionTimer assms show ?thesis by simp
next
  case Unmount
  with assms show ?thesis by (auto simp: closures_exhausted_def)
qed

lemma step_blocked_post:
  assumes "closures_exhausted l" and "ApiPost r \<in> set (loader_trace (loader_step props e l))"
  shows "ApiPost r \<in> set (loader_trace l)"
proof -
  from step_post [OF assms(2)] show ?thesis
  proof
    assume "ApiPost r \<in> set (loader_trace l)"
    then show ?thesis .
  next
    assume "r = pdfAPI_processPDF (props_file props) (props_time props) \<and>
      (\<exists>i < length (loader_runs l). e = Resume i \<and> \<not> quota_exhausted (fst (loader_runs l ! i)))"
    then obtain i where "i < length (loader_runs l)"
      and "\<not> quota_exhausted (fst (loader_runs l ! i))" by blast
    moreover have "\<forall>x \<in> set (loader_runs l). quota_exhausted (fst x)"
      using assms(1) by (simp add: closures_exhausted_def)
    ultimately show ?thesis using nth_mem by blast
  qed
qed

lemma run_events_blocked:
  "closures_exhausted l \<Longrightarrow> list_all exhausted_reply events \<Longrightarrow>
   ApiPost r \<in> set (loader_trace (run_events props events l)) \<Longrightarrow>
   ApiPost r \<in> set (loader_trace l)"
proof (induction events arbitrary: l)
  case Nil
  then show ?case by simp
next
  case (Cons e es)
  have "closures_exhausted (loader_step props e l)"
    using Cons.prems(1,2) by (simp add: step_closures)
  then have "ApiPost r \<in> set (loader_trace (loader_step props e l))"
    using Cons.IH Cons.prems(2,3) by simp
  then show ?case using Cons.prems(1) by (rule step_blocked_post [rotated])
qed

lemma mount_closures:
  "quota_exhausted (userQuota store) \<Longrightarrow> closures_exhausted (mount props store)"
  by (simp add: mount_def run_effect_def closures_exhausted_def)

lemma loader_blocked:
  "quota_exhausted (userQuota store) \<Longrightarrow> list_all exhausted_reply events \<Longrightarrow>
   ApiPost r \<notin> set (loader_trace (ProcessingLoader props store events))"
  unfolding ProcessingLoader_def
  using run_events_blocked [of "mount props store" events r props] mount_closures mount_no_post
  by blast

lemma step_unmounted_idle:
  "\<not> loader_mounted l \<Longrightarrow> loader_timer l = None \<Longrightarrow> loader_runs l = [] \<Longrightarrow>
   loader_step props e l = l"
  by (cases e) simp_all

lemma run_events_unmounted_idle:
  "\<not> loader_mounted l \<Longrightarrow> loader_timer l = None \<Longrightarrow> loader_runs l = [] \<Longrightarrow>
   run_events props events l = l"
  by (induction events) (simp_all add: step_unmounted_idle)

text \<open>
  A loader that is mounted without the \<^verbatim>\<open>setIsProcessing\<close> callback, as \<^verbatim>\<open>App\<close> mounts
  it, throws in its effect and does nothing else under any schedule.
\<close>

lemma loader_without_prop_throws:
  "\<not> props_setIsProcessing props \<Longrightarrow>
   loader_trace (ProcessingLoader props store events) = [Throws ''setIsProcessing is not a function'']"
proof -
  assume a: "\<not> props_setIsProcessing props"
  have "run_events props events (mount props store) = mount props store"
    using a by (intro run_events_unmounted_idle) (simp_all add: mount_def run_effect_def)
  then show ?thesis using a by (simp add: ProcessingLoader_def mount_def run_effect_def)
qed


lemma set_run_no_failed:
  "no_failed_call l \<Longrightarrow> \<forall>err. pc \<noteq> QuotaFailedAgain err \<Longrightarrow> no_failed_call (set_run i pc l)"
  unfolding no_failed_call_def
  by (auto dest!: set_update_subset_insert [THEN subsetD])

lemma no_failed_emit [simp]: "no_failed_call (emit es l) = no_failed_call l"
  by (simp add: no_failed_call_def)

lemma no_failed_store [simp]: "no_failed_call (l\<lparr>loader_store := s\<rparr>) = no_failed_call l"
  by (simp add: no_failed_call_def)

lemma step_no_error:
  assumes "no_failed_call l" and "answers_with data e"
    and "SetError (Some m) \<notin> set (loader_trace l)"
  shows "no_failed_call (loader_step props e l) \<and>
         SetError (Some m) \<notin> set (loader_trace (loader_step props e l))"
proof (cases e)
  case Rerender
  with assms show ?thesis by (auto simp: run_effect_def no_failed_call_def)
next
  case TimerFires
  with assms show ?thesis by (auto simp: no_failed_call_def split: option.splits)
next
  case (QuotaReply i reply)
  from assms(2) QuotaReply obtain d where reply: "reply = Inr d"
    by (cases reply) simp_all
  have "no_failed_call (quota_reply i reply pc l)" for pc
    using assms(1) reply by (cases pc) (auto intro!: set_run_no_failed)
  with QuotaReply assms show ?thesis by simp
next
  case (Resume i)
  have "no_failed_call (resume props i quota (snd (loader_runs l ! i)) l) \<and>
      SetError (Some m) \<notin> set (loader_trace (resume props i quota (snd (loader_runs l ! i)) l))"
    if i: "i < length (loader_runs l)" for quota
  proof -
    have ok: "\<forall>err. snd (loader_runs l ! i) \<noteq> QuotaFailedAgain err"
      using assms(1) i nth_mem unfolding no_failed_call_def by blast
    show ?thesis
    proof (cases "snd (loader_runs l ! i)")
      case QuotaArrived
      then show ?thesis using assms(1,3) by (simp add: set_run_no_failed)
    next
      case (QuotaArrivedAgain data)
      then show ?thesis using assms(1,3) by (simp add: set_run_no_failed)
    next
      case (QuotaFailedAgain err)
      then show ?thesis using ok by simp
    qed (use assms(1,3) in simp_all)
  qed
  with Resume assms show ?thesis by simp
next
  case (UploadReply i reply)
  from assms(2) UploadReply obtain d where reply: "reply = Inr d"
    by (cases reply) simp_all
  have "no_failed_call (upload_reply i reply pc l) \<and>
      SetError (Some m) \<notin> set (loader_trace (upload_reply i reply pc l))" for pc
    using assms(1,3) reply by (cases pc) (auto intro!: set_run_no_failed)
  with UploadReply assms show ?thesis by simp
next
  case (CompletionTimer i)
  have "no_failed_call (completion_timer i pc l) \<and>
      SetError (Some m) \<notin> set (loader_trace (completion_timer i pc l))" for pc
    using assms(1,3) by (cases pc) (auto intro!: set_run_no_failed)
  with CompletionTimer assms show ?thesis by simp
next
  case Unmount
  with assms show ?thesis by (auto simp: no_failed_call_def)
qed

lemma run_events_no_error:
  "no_failed_call l \<Longrightarrow> list_all (answers_with data) events \<Longrightarrow>
   SetError (Some m) \<notin> set (loader_trace l) \<Longrightarrow>
   SetError (Some m) \<notin> set (loader_trace (run_events props events l))"
proof (induction events arbitrary: l)
  case Nil
  then show ?case by simp
next
  case (Cons e es)
  have "no_failed_call (loader_step props e l) \<and>
      SetError (Some m) \<notin> set (loader_trace (loader_step props e l))"
    using Cons.prems step_no_error [of l data e m props] by simp
  then show ?case using Cons.IH Cons.prems(2) by simp
qed

lemma loader_no_error:
  "list_all (answers_with data) events \<Longrightarrow>
   SetError (Some m) \<notin> set (loader_trace (ProcessingLoader props store events))"
  unfolding ProcessingLoader_def
  by (rule run_events_no_error) (simp_all add: mount_def run_effect_def no_failed_call_def)

lemma resume_blocked_step:
  assumes "i < length (loader_runs l)" and "loader_runs l ! i = (quota, QuotaArrived)"
    and "quota_exhausted quota"
  shows "loader_trace (loader_step props (Resume i) l) =
           loader_trace l @ [SetShowSubscribeModal True, SetIsProcessing False] \<and>
         loader_runs (loader_step props (Resume i) l) ! i = (quota, Finished)"
  using assms by simp

lemma exhausted_store_quota: "quota_exhausted (userQuota exhausted_store)"
  by (simp add: exhausted_store_def example_free_quota_def quota_exhausted_def)

lemma blocked_trace:
  "loader_trace (ProcessingLoader example_props exhausted_store blocked_schedule) =
     [SetIsProcessing True, SetError None, FetchUserQuota, SetIsProcessing True,
      SetIsProcessing True, SetShowSubscribeModal True, SetIsProcessing False]"
  using exhausted_store_quota
  by (simp add: ProcessingLoader_def blocked_schedule_def mount_def run_effect_def
      example_props_def fetchUserQuota_def)

lemma blocked_schedule_replies: "list_all exhausted_reply blocked_schedule"
  by (simp add: blocked_schedule_def quota_exhausted_def example_free_quota_def)


lemma completing_trace:
  "loader_trace (ProcessingLoader example_props initial_store (completing_schedule data)) =
     [SetIsProcessing True, SetError None, FetchUserQuota, SetIsProcessing True,
      SetIsProcessing True, ApiPost (pdfAPI_processPDF example_pdf 20),
      SetProgress 100, SetCurrentStep 3, FetchUserQuota, SetIsProcessing True,
      SetIsProcessing True, OnComplete data, SetIsProcessing False]"
  by (simp add: ProcessingLoader_def completing_schedule_def mount_def run_effect_def
      example_props_def fetchUserQuota_def quota_exhausted_def initial_store_def)

lemma completing_schedule_answers: "list_all (answers_with data) (completing_schedule data)"
  by (simp add: completing_schedule_def)

subsection \<open>Quota gate\<close>

lemma quota_exhausted_Some:
  "quota_exhausted (Some q) \<longleftrightarrow>
     plan_type q = ''free'' \<and> (\<exists>limit. pdf_limit q = Some limit \<and> pdfs_used q \<ge> limit)"
  by (auto simp: quota_exhausted_def split: option.splits)

text \<open>
  Claim C6. When the quota fetched at a file selection is of the free plan with a limit that
  is used up, \<^verbatim>\<open>handleFileSelect\<close> only sets the quota message and opens the subscribe
  modal: the application state and the stored file are unchanged, so no transition to
  time selection or processing happens and the loader is not mounted. The fetched quota is
  what the store then holds, and a \<^verbatim>\<open>ProcessingLoader\<close> mounted on that store sends no
  upload request under any schedule in which the user's quota stays exhausted, whatever its
  props and however often its effect runs again. At the check itself, a call of
  \<^verbatim>\<open>processPDF\<close> that holds this quota and resumes after its fetch opens the modal,
  clears the processing flag and ends without posting.
\<close>

theorem exhausted_free_quota_blocks_selection:
  assumes "plan_type q = ''free''" and "pdf_limit q = Some limit" and "pdfs_used q \<ge> limit"
  shows "fst (handleFileSelect authenticated (Inr (Some q)) file (app, store)) =
           app\<lparr>quotaError :=
                 Some ''You have used all 3 free PDFs. Please purchase a plan to continue.'',
               showSubscribeModal := True\<rparr> \<and>
         currentState (fst (handleFileSelect authenticated (Inr (Some q)) file (app, store))) =
           currentState app \<and>
         selectedFile (fst (handleFileSelect authenticated (Inr (Some q)) file (app, store))) =
           selectedFile app \<and>
         mounted_loader (fst (handleFileSelect authenticated (Inr (Some q)) file (app, store))) = None \<and>
         userQuota (snd (handleFileSelect authenticated (Inr (Some q)) file (app, store))) = Some q \<and>
         (list_all exhausted_reply events \<longrightarrow>
            ApiPost request \<notin>
              set (loader_trace (ProcessingLoader props
                    (snd (handleFileSelect authenticated (Inr (Some q)) file (app, store)))
                    events))) \<and>
         (i < length (loader_runs l) \<and> loader_runs l ! i = (Some q, QuotaArrived) \<longrightarrow>
            loader_trace (loader_step props (Resume i) l) =
              loader_trace l @ [SetShowSubscribeModal True, SetIsProcessing False] \<and>
            loader_runs (loader_step props (Resume i) l) ! i = (Some q, Finished))"
proof -
  have ex: "quota_exhausted (Some q)"
    using assms by (simp add: quota_exhausted_Some)
  have hfs: "handleFileSelect authenticated (Inr (Some q)) file (app, store) =
      (app\<lparr>quotaError :=
             Some ''You have used all 3 free PDFs. Please purchase a plan to continue.'',
           showSubscribeModal := True\<rparr>,
       store\<lparr>userQuota := Some q, pricing_isLoading := False, pricing_error := None\<rparr>)"
    using ex by (simp add: handleFileSelect_def fetchUserQuota_def)
  have blocked: "ApiPost request \<notin>
      set (loader_trace (ProcessingLoader props
        (store\<lparr>userQuota := Some q, pricing_isLoading := False, pricing_error := None\<rparr>) events))"
    if "list_all exhausted_reply events"
    using ex that by (intro loader_blocked) simp_all
  have step: "loader_trace (loader_step props (Resume i) l) =
              loader_trace l @ [SetShowSubscribeModal True, SetIsProcessing False] \<and>
            loader_runs (loader_step props (Resume i) l) ! i = (Some q, Finished)"
    if "i < length (loader_runs l) \<and> loader_runs l ! i = (Some q, QuotaArrived)"
    using that ex by (intro resume_blocked_step) simp_all
  show ?thesis
    unfolding hfs using blocked step by (simp add: mounted_loader_def)
qed

theorem exhausted_free_quota_blocks_selection_witness:
  "plan_type example_free_quota = ''free'' \<and>
   pdf_limit example_free_quota = Some 3 \<and>
   pdfs_used example_free_quota \<ge> 3 \<and>
   list_all exhausted_reply blocked_schedule \<and>
   currentState (fst (handleFileSelect True (Inr (Some example_free_quota)) example_pdf
      (initial_app, initial_store))) = Upload \<and>
   showSubscribeModal (fst (handleFileSelect True (Inr (Some example_free_quota)) example_pdf
      (initial_app, initial_store))) \<and>
   snd (handleFileSelect True (Inr (Some example_free_quota)) example_pdf
      (initial_app, initial_store)) = exhausted_store \<and>
   ApiPost (pdfAPI_processPDF example_pdf 20)
     \<notin> set (loader_trace (ProcessingLoader example_props exhausted_store blocked_schedule)) \<and>
   SetShowSubscribeModal True
     \<in> set (loader_trace (ProcessingLoader example_props exhausted_store blocked_schedule))"
proof -
  have free: "plan_type example_free_quota = ''free''"
    and limit: "pdf_limit example_free_quota = Some 3"
    and used: "pdfs_used example_free_quota \<ge> 3"
    by (simp_all add: example_free_quota_def)
  have stored: "snd (handleFileSelect True (Inr (Some example_free_quota)) example_pdf
      (initial_app, initial_store)) = exhausted_store"
    using free limit used
    by (simp add: handleFileSelect_def fetchUserQuota_def initial_store_def exhausted_store_def
        quota_exhausted_def)
  note gate = exhausted_free_quota_blocks_selection
    [OF free limit used, of True example_pdf initial_app initial_store blocked_schedule
        "pdfAPI_processPDF example_pdf 20" example_props 0 "mount example_props exhausted_store"]
  have shown: "SetShowSubscribeModal True
     \<in> set (loader_trace (ProcessingLoader example_props exhausted_store blocked_schedule))"
    by (simp add: blocked_trace)
  from gate stored blocked_schedule_replies
  have "currentState (fst (handleFileSelect True (Inr (Some example_free_quota)) example_pdf
      (initial_app, initial_store))) = currentState initial_app"
    and "showSubscribeModal (fst (handleFileSelect True (Inr (Some example_free_quota))
      example_pdf (initial_app, initial_store)))"
    and "ApiPost (pdfAPI_processPDF example_pdf 20)
     \<notin> set (loader_trace (ProcessingLoader example_props exhausted_store blocked_schedule))"
    by simp_all
  with free limit used stored blocked_schedule_replies shown show ?thesis
    by (simp add: initial_app_def)
qed

subsection \<open>Time limit and upload request\<close>






subsection \<open>The selector on the example document\<close>

lemma example_reading_times:
  "reading_time example_config intro_chunk = 6 / 5"
  "reading_time example_config methods_chunk = 6 / 5"
  "reading_time example_config long_chunk = 8 / 5"
  by (simp_all add: reading_time_def example_config_def intro_chunk_def methods_chunk_def
      long_chunk_def)

lemma example_words:
  "words intro_chunk = 300" "words methods_chunk = 300" "words long_chunk = 400"
  by (simp_all add: intro_chunk_def methods_chunk_def long_chunk_def)

lemma example_score_order:
  "by_score [(0, intro_chunk), (Suc 0, methods_chunk)] = [(Suc 0, methods_chunk), (0, intro_chunk)]"
  by (simp add: by_score_def intro_chunk_def methods_chunk_def)

lemma example_selection:
  "select_chunks example_config 10 [intro_chunk, methods_chunk] =
     \<lparr>selected = [intro_chunk, methods_chunk], total_reading_time = 12 / 5,
      total_word_count = 600, warnings = []\<rparr>"
  by (simp add: select_chunks_def example_score_order by_position_def selection_result_def
      example_reading_times example_words)

lemma example_small_budget:
  "select_chunks example_config 1 [long_chunk] =
     \<lparr>selected = [long_chunk], total_reading_time = 8 / 5, total_word_count = 400,
      warnings = [''The time budget is too small for any complete chunk'']\<rparr>"
  by (simp add: select_chunks_def selection_result_def example_reading_times example_words)

subsection \<open>Budget selection\<close>

lemma greedy_within_budget:
  "running \<le> budget \<Longrightarrow>
   running + sum_list (map (\<lambda>x. reading_time cfg (snd x)) (greedy cfg budget running xs)) \<le> budget"
proof (induction xs arbitrary: running)
  case Nil
  then show ?case by simp
next
  case (Cons x xs)
  show ?case
  proof (cases "running + reading_time cfg (snd x) \<le> budget")
    case True
    from Cons.IH [OF True] True show ?thesis by (simp add: add.assoc)
  next
    case False
    with Cons.IH [OF Cons.prems] show ?thesis by simp
  qed
qed

lemma sum_list_insort_key:
  "sum_list (map g (insort_key k x xs)) = g x + sum_list (map g xs)"
  for g :: "'a \<Rightarrow> rat"
  by (induction xs) simp_all

lemma sum_list_sort_key:
  "sum_list (map g (sort_key k xs)) = sum_list (map g xs)"
  for g :: "'a \<Rightarrow> rat"
  by (induction xs) (simp_all add: sum_list_insort_key)

lemma by_position_time:
  "sum_list (map (reading_time cfg) (by_position accepted)) =
   sum_list (map (\<lambda>x. reading_time cfg (snd x)) accepted)"
  using sum_list_sort_key [of "\<lambda>x. reading_time cfg (snd x)" fst accepted]
  by (simp add: by_position_def comp_def)

lemma smallest_member: "smallest c ds \<in> set (c # ds)"
  by (induction ds arbitrary: c) auto

lemma smallest_least:
  "words (smallest c ds) \<le> words c \<and> (\<forall>d \<in> set ds. words (smallest c ds) \<le> words d)"
proof (induction ds arbitrary: c)
  case Nil
  then show ?case by simp
next
  case (Cons e es)
  let ?c' = "if words e < words c then e else c"
  have ih: "words (smallest ?c' es) \<le> words ?c' \<and>
      (\<forall>d \<in> set es. words (smallest ?c' es) \<le> words d)"
    by (rule Cons.IH)
  have c': "words ?c' \<le> words c \<and> words ?c' \<le> words e"
    by simp
  from ih c' have "words (smallest ?c' es) \<le> words c \<and> words (smallest ?c' es) \<le> words e"
    by linarith
  with ih show ?case by simp
qed

lemma reading_time_mono: "words c \<le> words d \<Longrightarrow> reading_time cfg c \<le> reading_time cfg d"
  by (simp add: reading_time_def divide_right_mono)

text \<open>
  Claim C1. With a positive reading speed, the total reading time recorded in a selection
  result is that of the selected chunks. When even a chunk of least word count exceeds the
  requested budget, such a chunk is selected alone and a warning is flagged. In every other
  case the total reading time is at most the budget and no warning is flagged.
\<close>

theorem selection_respects_budget:
  assumes "0 < words_per_minute cfg"
  shows "total_reading_time (select_chunks cfg budget chunks) =
           sum_list (map (reading_time cfg) (selected (select_chunks cfg budget chunks))) \<and>
         ((\<exists>c \<in> set chunks. (\<forall>d \<in> set chunks. words c \<le> words d) \<and>
              reading_time cfg c > of_nat budget) \<longrightarrow>
            (\<exists>c \<in> set chunks.
               (\<forall>d \<in> set chunks. words c \<le> words d) \<and>
               reading_time cfg c > of_nat budget \<and>
               selected (select_chunks cfg budget chunks) = [c] \<and>
               warnings (select_chunks cfg budget chunks) \<noteq> [])) \<and>
         (\<not> (\<exists>c \<in> set chunks. (\<forall>d \<in> set chunks. words c \<le> words d) \<and>
              reading_time cfg c > of_nat budget) \<longrightarrow>
            total_reading_time (select_chunks cfg budget chunks) \<le> of_nat budget \<and>
            warnings (select_chunks cfg budget chunks) = [])"
proof (cases chunks)
  case Nil
  then show ?thesis by (simp add: select_chunks_def selection_result_def)
next
  case (Cons c cs)
  have mem: "smallest c cs \<in> set chunks"
    using smallest_member [of c cs] Cons by simp
  have least: "\<forall>d \<in> set chunks. words (smallest c cs) \<le> words d"
    using smallest_least [of c cs] Cons by simp
  have edge: "(\<exists>c' \<in> set chunks. (\<forall>d \<in> set chunks. words c' \<le> words d) \<and>
        reading_time cfg c' > of_nat budget) \<longleftrightarrow>
      reading_time cfg (smallest c cs) > of_nat budget"
  proof
    assume "\<exists>c' \<in> set chunks. (\<forall>d \<in> set chunks. words c' \<le> words d) \<and>
        reading_time cfg c' > of_nat budget"
    then obtain c' where c': "c' \<in> set chunks" "\<forall>d \<in> set chunks. words c' \<le> words d"
      "reading_time cfg c' > of_nat budget" by blast
    have "words c' \<le> words (smallest c cs)"
      using c'(2) mem by blast
    then have "reading_time cfg c' \<le> reading_time cfg (smallest c cs)"
      by (rule reading_time_mono)
    with c'(3) show "reading_time cfg (smallest c cs) > of_nat budget"
      by simp
  next
    assume "reading_time cfg (smallest c cs) > of_nat budget"
    with mem least show "\<exists>c' \<in> set chunks. (\<forall>d \<in> set chunks. words c' \<le> words d) \<and>
        reading_time cfg c' > of_nat budget"
      by blast
  qed
  show ?thesis
  proof (cases "reading_time cfg (smallest c cs) > of_nat budget")
    case True
    have sel: "select_chunks cfg budget chunks =
        selection_result cfg [smallest c cs]
          [''The time budget is too small for any complete chunk'']"
      using True Cons by (simp add: select_chunks_def)
    have alone: "\<exists>c' \<in> set chunks.
               (\<forall>d \<in> set chunks. words c' \<le> words d) \<and>
               reading_time cfg c' > of_nat budget \<and>
               selected (select_chunks cfg budget chunks) = [c'] \<and>
               warnings (select_chunks cfg budget chunks) \<noteq> []"
      unfolding sel using mem least True by (auto simp: selection_result_def)
    have total: "total_reading_time (select_chunks cfg budget chunks) =
           sum_list (map (reading_time cfg) (selected (select_chunks cfg budget chunks)))"
      unfolding sel by (simp add: selection_result_def)
    from total alone edge True show ?thesis by blast
  next
    case False
    have sel: "select_chunks cfg budget chunks =
        selection_result cfg
          (by_position (greedy cfg (of_nat budget) 0 (by_score (enumerate 0 chunks)))) []"
      using False Cons by (simp add: select_chunks_def)
    have "0 + sum_list (map (\<lambda>x. reading_time cfg (snd x))
            (greedy cfg (of_nat budget) 0 (by_score (enumerate 0 chunks)))) \<le> of_nat budget"
      by (rule greedy_within_budget) simp
    then have within: "total_reading_time (select_chunks cfg budget chunks) \<le> of_nat budget \<and>
            warnings (select_chunks cfg budget chunks) = []"
      unfolding sel by (simp add: selection_result_def by_position_time)
    have total: "total_reading_time (select_chunks cfg budget chunks) =
           sum_list (map (reading_time cfg) (selected (select_chunks cfg budget chunks)))"
      unfolding sel by (simp add: selection_result_def)
    from total within edge False show ?thesis by blast
  qed
qed

theorem selection_respects_budget_witness:
  "0 < words_per_minute example_config \<and>
   words long_chunk \<le> words (long_chunk\<lparr>words := 500\<rparr>) \<and>
   reading_time example_config long_chunk > 1 \<and>
   selected (select_chunks example_config 1 [long_chunk, long_chunk\<lparr>words := 500\<rparr>]) =
     [long_chunk] \<and>
   warnings (select_chunks example_config 1 [long_chunk, long_chunk\<lparr>words := 500\<rparr>]) \<noteq> [] \<and>
   reading_time example_config intro_chunk \<le> 10 \<and>
   reading_time example_config methods_chunk \<le> 10 \<and>
   total_reading_time (select_chunks example_config 10 [intro_chunk, methods_chunk]) \<le> 10 \<and>
   warnings (select_chunks example_config 10 [intro_chunk, methods_chunk]) = []"
proof -
  have wpm: "0 < words_per_minute example_config"
    by (simp add: example_config_def)
  have least: "long_chunk \<in> set [long_chunk, long_chunk\<lparr>words := 500\<rparr>]"
    "\<forall>d \<in> set [long_chunk, long_chunk\<lparr>words := 500\<rparr>]. words long_chunk \<le> words d"
    "reading_time example_config long_chunk > of_nat 1"
    by (simp_all add: example_words example_reading_times)
  have fits: "\<not> (\<exists>c \<in> set [intro_chunk, methods_chunk].
        (\<forall>d \<in> set [intro_chunk, methods_chunk]. words c \<le> words d) \<and>
        reading_time example_config c > of_nat 10)"
    by (simp add: example_reading_times)
  note small = selection_respects_budget
    [OF wpm, of 1 "[long_chunk, long_chunk\<lparr>words := 500\<rparr>]"]
  note large = selection_respects_budget [OF wpm, of 10 "[intro_chunk, methods_chunk]"]
  have alone: "selected (select_chunks example_config 1
        [long_chunk, long_chunk\<lparr>words := 500\<rparr>]) = [long_chunk] \<and>
      warnings (select_chunks example_config 1
        [long_chunk, long_chunk\<lparr>words := 500\<rparr>]) \<noteq> []"
  proof -
    from small least obtain c where c: "c \<in> set [long_chunk, long_chunk\<lparr>words := 500\<rparr>]"
      "\<forall>d \<in> set [long_chunk, long_chunk\<lparr>words := 500\<rparr>]. words c \<le> words d"
      "selected (select_chunks example_config 1
        [long_chunk, long_chunk\<lparr>words := 500\<rparr>]) = [c]"
      "warnings (select_chunks example_config 1
        [long_chunk, long_chunk\<lparr>words := 500\<rparr>]) \<noteq> []"
      by blast
    from c(1,2) have "c = long_chunk"
      by (auto simp: example_words)
    with c(3,4) show ?thesis by simp
  qed
  from large fits have "total_reading_time
        (select_chunks example_config 10 [intro_chunk, methods_chunk]) \<le> of_nat 10 \<and>
      warnings (select_chunks example_config 10 [intro_chunk, methods_chunk]) = []"
    by blast
  with wpm alone show ?thesis by (simp add: example_words example_reading_times)
qed

subsection \<open>Presentation order\<close>

lemma greedy_subset: "set (greedy cfg budget running xs) \<subseteq> set xs"
  by (induction xs arbitrary: running) auto

lemma greedy_distinct_positions:
  "distinct (map fst xs) \<Longrightarrow> distinct (map fst (greedy cfg budget running xs))"
proof (induction xs arbitrary: running)
  case Nil
  then show ?case by simp
next
  case (Cons x xs)
  have "fst x \<notin> fst ` set (greedy cfg budget r xs)" for r
    using Cons.prems greedy_subset [of cfg budget r xs] by auto
  with Cons show ?case by simp
qed

lemma sort_key_distinct_positions:
  "distinct (map fst xs) \<Longrightarrow> distinct (map fst (sort_key k xs))"
  by (simp add: distinct_map)

lemma positions_in_enumerate_subseq:
  "sorted_wrt (<) (map fst ys) \<Longrightarrow> set ys \<subseteq> set (enumerate n xs) \<Longrightarrow>
   subseq ys (enumerate n xs)"
proof (induction xs arbitrary: n ys)
  case Nil
  then show ?case by simp
next
  case (Cons x xs)
  show ?case
  proof (cases ys)
    case Nil
    then show ?thesis by simp
  next
    case ys: (Cons y ys')
    have later: "fst y < fst z" if "z \<in> set ys'" for z
      using Cons.prems(1) that ys by auto
    have tail_sorted: "sorted_wrt (<) (map fst ys')"
      using Cons.prems(1) ys by simp
    show ?thesis
    proof (cases "y = (n, x)")
      case True
      have "set ys' \<subseteq> set (enumerate (Suc n) xs)"
      proof
        fix z assume z: "z \<in> set ys'"
        then have "n < fst z" using later True by fastforce
        moreover have "z \<in> set (enumerate n (x # xs))"
          using Cons.prems(2) z ys by auto
        ultimately show "z \<in> set (enumerate (Suc n) xs)" by auto
      qed
      then have "subseq ys' (enumerate (Suc n) xs)"
        using Cons.IH tail_sorted by blast
      then show ?thesis using True ys by simp
    next
      case False
      have y_in: "y \<in> set (enumerate (Suc n) xs)"
        using Cons.prems(2) ys False by auto
      then have y_pos: "Suc n \<le> fst y"
        by (simp add: in_set_enumerate_eq)
      have "set ys \<subseteq> set (enumerate (Suc n) xs)"
      proof
        fix z assume z: "z \<in> set ys"
        show "z \<in> set (enumerate (Suc n) xs)"
        proof (cases "z = y")
          case True
          then show ?thesis using y_in by simp
        next
          case False
          then have "z \<in> set ys'" using z ys by simp
          then have "n < fst z" using later y_pos by fastforce
          moreover have "z \<in> set (enumerate n (x # xs))"
            using Cons.prems(2) z by auto
          ultimately show ?thesis by auto
        qed
      qed
      then have "subseq ys (enumerate (Suc n) xs)"
        using Cons.IH Cons.prems(1) by blast
      then show ?thesis by (simp add: list_emb_Cons)
    qed
  qed
qed

lemma by_position_subseq:
  assumes "set accepted \<subseteq> set (enumerate 0 chunks)" and "distinct (map fst accepted)"
  shows "subseq (by_position accepted) chunks"
proof -
  have "sorted (map fst (sort_key fst accepted))"
    by simp
  moreover have "distinct (map fst (sort_key fst accepted))"
    using assms(2) by (rule sort_key_distinct_positions)
  ultimately have "sorted_wrt (<) (map fst (sort_key fst accepted))"
    by (simp add: strict_sorted_iff)
  moreover have "set (sort_key fst accepted) \<subseteq> set (enumerate 0 chunks)"
    using assms(1) by simp
  ultimately have "subseq (sort_key fst accepted) (enumerate 0 chunks)"
    by (rule positions_in_enumerate_subseq)
  then have "subseq (map snd (sort_key fst accepted)) (map snd (enumerate 0 chunks))"
    by (rule subseq_map)
  then show ?thesis by (simp add: by_position_def)
qed

lemma select_chunks_subseq: "subseq (selected (select_chunks cfg budget chunks)) chunks"
proof (cases chunks)
  case Nil
  then show ?thesis by (simp add: select_chunks_def selection_result_def)
next
  case (Cons c cs)
  show ?thesis
  proof (cases "reading_time cfg (smallest c cs) > of_nat budget")
    case True
    have "smallest c cs \<in> set chunks"
      using smallest_member [of c cs] Cons by simp
    then have "subseq [smallest c cs] chunks"
      by (simp add: subseq_singleton_left)
    then show ?thesis using True Cons by (simp add: select_chunks_def selection_result_def)
  next
    case False
    let ?accepted = "greedy cfg (of_nat budget) 0 (by_score (enumerate 0 chunks))"
    have "set ?accepted \<subseteq> set (by_score (enumerate 0 chunks))"
      by (rule greedy_subset)
    then have sub: "set ?accepted \<subseteq> set (enumerate 0 chunks)"
      by (simp add: by_score_def)
    have "distinct (map fst (enumerate 0 chunks))"
      by simp
    then have "distinct (map fst (by_score (enumerate 0 chunks)))"
      unfolding by_score_def by (rule sort_key_distinct_positions)
    then have dist: "distinct (map fst ?accepted)"
      by (rule greedy_distinct_positions)
    have "subseq (by_position ?accepted) chunks"
      using sub dist by (rule by_position_subseq)
    then show ?thesis using False Cons by (simp add: select_chunks_def selection_result_def)
  qed
qed

text \<open>
  Claim C3. The chunks of a selection result form a subsequence of the document's chunk
  list, so they are presented in document order whatever their scores; and the frontend
  shows the sections in the order received: there are as many sections as elements of
  \<^verbatim>\<open>condensed_content\<close>, the \<open>i\<close>-th section is derived from the \<open>i\<close>-th element, and
  the sections block of the view carries that list as it is.
\<close>

theorem presentation_in_document_order:
  "subseq (selected (select_chunks cfg budget chunks)) chunks \<and>
   (condensed_content d = Some cs \<longrightarrow>
      length (sections (Some d)) = length cs \<and>
      (\<forall>i < length cs. sections (Some d) ! i = section_of i (cs ! i)) \<and>
      StudyPack quota downloading historyId (Some d) ! 2 = MustReadSections (sections (Some d)))"
  by (simp add: select_chunks_subseq sections_def length_map_index nth_map_index StudyPack_def)

theorem presentation_in_document_order_witness:
  "by_score (enumerate 0 [intro_chunk, methods_chunk]) = [(1, methods_chunk), (0, intro_chunk)] \<and>
   subseq (selected (select_chunks example_config 10 [intro_chunk, methods_chunk]))
     [intro_chunk, methods_chunk] \<and>
   selected (select_chunks example_config 10 [intro_chunk, methods_chunk]) =
     [intro_chunk, methods_chunk] \<and>
   condensed_content example_data = Some [example_chunk] \<and>
   sections (Some example_data) ! 0 = section_of 0 example_chunk"
proof -
  have order: "by_score (enumerate 0 [intro_chunk, methods_chunk]) =
      [(1, methods_chunk), (0, intro_chunk)]"
    using example_score_order by simp
  have data: "condensed_content example_data = Some [example_chunk]"
    by (simp add: example_data_def)
  note shown = presentation_in_document_order
    [of example_config 10 "[intro_chunk, methods_chunk]" example_data "[example_chunk]"
        None False None]
  from shown order data show ?thesis
    unfolding example_selection by simp
qed

subsection \<open>Fallback of the condenser\<close>

lemma condense_fails:
  "\<forall>t n. summarize t n = None \<Longrightarrow>
   condense cfg summarize c =
     (c, if reading_time cfg c \<le> condense_ceiling cfg then []
         else [''Summarization unavailable: a section is shown in full''])"
  by (simp add: condense_def)

lemma condense_all_fails:
  assumes "\<forall>t n. summarize t n = None"
  shows "condense_all cfg summarize cs =
     (cs, replicate (length (filter (\<lambda>c. reading_time cfg c > condense_ceiling cfg) cs))
            ''Summarization unavailable: a section is shown in full'')"
proof -
  have "map (\<lambda>c. fst (condense cfg summarize c)) cs = cs"
    using assms by (simp add: condense_fails)
  moreover have "concat (map (\<lambda>c. snd (condense cfg summarize c)) cs) =
      replicate (length (filter (\<lambda>c. reading_time cfg c > condense_ceiling cfg) cs))
        ''Summarization unavailable: a section is shown in full''"
    using assms by (induction cs) (simp_all add: condense_fails)
  ultimately show ?thesis by (simp add: condense_all_def)
qed


text \<open>
  Claim C4. When the extraction succeeds and every summarization call fails, the pipeline
  returns a study pack and no error; the pack's chunks are the selected chunks as they were
  before condensation; its notes are the selection warnings followed by one advisory note
  for each oversized chunk; and the frontend, given this response, shows those notes as
  processing notes, and a loader that is answered with it, under any schedule in which no
  request fails, sets no error message.
\<close>

theorem summarization_failure_falls_back:
  assumes "extract_text env pdf = Inr pages"
    and "\<forall>t n. summarize_text env t n = None"
  shows "\<exists>pack. pipeline cfg env plan_allows pdf budget filename = Inr pack \<and>
      pack_content pack =
        selected (select_chunks cfg budget (score_chunks env (chunk_pages env pages))) \<and>
      pack_notes pack =
        warnings (select_chunks cfg budget (score_chunks env (chunk_pages env pages))) @
        replicate
          (length (filter (\<lambda>c. reading_time cfg c > condense_ceiling cfg)
             (selected (select_chunks cfg budget (score_chunks env (chunk_pages env pages))))))
          ''Summarization unavailable: a section is shown in full'' \<and>
      processingNotes (Some (to_wire cfg pack)) = pack_notes pack \<and>
      (list_all (answers_with (to_wire cfg pack)) events \<longrightarrow>
         SetError (Some m) \<notin> set (loader_trace (ProcessingLoader props store events)))"
  using assms
  by (simp add: pipeline_def assemble_def condense_all_fails processingNotes_def to_wire_def
      loader_no_error)

theorem summarization_failure_falls_back_witness:
  "extract_text failing_env ''%PDF'' =
     Inr [(1, ''Cells are the unit of life.''), (2, ''Mitosis has four phases.'')] \<and>
   (\<forall>t n. summarize_text failing_env t n = None) \<and>
   (\<exists>pack. pipeline example_config failing_env True ''%PDF'' 10 ''cells.pdf'' = Inr pack \<and>
      pack_content pack = [intro_chunk, methods_chunk] \<and>
      pack_notes pack =
        [''Summarization unavailable: a section is shown in full'',
         ''Summarization unavailable: a section is shown in full''] \<and>
      OnComplete (to_wire example_config pack)
        \<in> set (loader_trace (ProcessingLoader example_props initial_store
              (completing_schedule (to_wire example_config pack)))) \<and>
      SetError (Some ''Failed to process PDF'')
        \<notin> set (loader_trace (ProcessingLoader example_props initial_store
              (completing_schedule (to_wire example_config pack)))))"
proof -
  have extracted: "extract_text failing_env ''%PDF'' =
      Inr [(1, ''Cells are the unit of life.''), (2, ''Mitosis has four phases.'')]"
    by (simp add: failing_env_def)
  have failing: "\<forall>t n. summarize_text failing_env t n = None"
    by (simp add: failing_env_def)
  have chunks: "score_chunks failing_env (chunk_pages failing_env
      [(1, ''Cells are the unit of life.''), (2, ''Mitosis has four phases.'')]) =
      [intro_chunk, methods_chunk]"
    by (simp add: failing_env_def)
  have ceiling: "condense_ceiling example_config = 1"
    by (simp add: example_config_def)
  let ?response = "to_wire example_config
      (projr (pipeline example_config failing_env True ''%PDF'' 10 ''cells.pdf''))"
  note fallback = summarization_failure_falls_back
    [OF extracted failing, of example_config True 10 "''cells.pdf''"
        "completing_schedule ?response" "''Failed to process PDF''" example_props initial_store]
  then obtain pack where
    pack: "pipeline example_config failing_env True ''%PDF'' 10 ''cells.pdf'' = Inr pack"
    and content: "pack_content pack =
        selected (select_chunks example_config 10 (score_chunks failing_env
          (chunk_pages failing_env
            [(1, ''Cells are the unit of life.''), (2, ''Mitosis has four phases.'')])))"
    and noted: "pack_notes pack =
        warnings (select_chunks example_config 10 (score_chunks failing_env
          (chunk_pages failing_env
            [(1, ''Cells are the unit of life.''), (2, ''Mitosis has four phases.'')]))) @
        replicate
          (length (filter (\<lambda>c. reading_time example_config c > condense_ceiling example_config)
             (selected (select_chunks example_config 10 (score_chunks failing_env
                (chunk_pages failing_env
                  [(1, ''Cells are the unit of life.''), (2, ''Mitosis has four phases.'')]))))))
          ''Summarization unavailable: a section is shown in full''"
    and quiet: "list_all (answers_with (to_wire example_config pack))
          (completing_schedule ?response) \<longrightarrow>
        SetError (Some ''Failed to process PDF'')
          \<notin> set (loader_trace (ProcessingLoader example_props initial_store
                (completing_schedule ?response)))"
    by blast
  have response: "?response = to_wire example_config pack"
    by (simp add: pack)
  have "pack_content pack = [intro_chunk, methods_chunk]"
    using content unfolding chunks example_selection by simp
  moreover have "pack_notes pack =
        [''Summarization unavailable: a section is shown in full'',
         ''Summarization unavailable: a section is shown in full'']"
    using noted unfolding chunks example_selection
    by (simp add: example_reading_times ceiling)
  moreover have "SetError (Some ''Failed to process PDF'')
        \<notin> set (loader_trace (ProcessingLoader example_props initial_store
              (completing_schedule (to_wire example_config pack))))"
    using quiet unfolding response by (simp add: completing_schedule_answers)
  moreover have "OnComplete (to_wire example_config pack)
        \<in> set (loader_trace (ProcessingLoader example_props initial_store
              (completing_schedule (to_wire example_config pack))))"
    by (simp add: completing_trace)
  ultimately show ?thesis
    using pack extracted failing by blast
qed

end
